theory Spec2Isabelle
  imports Complex_Main "HOL-Library.Word" "HOL-Library.AList" "HOL-Library.List_Lexorder"
begin

section \<open>Python values\<close>

text \<open>
  A Python \<open>str\<close> is a sequence of Unicode code points; \<open>bytes\<close> is a sequence of
  octets. Field names and messages of the source are ASCII literals, lifted by \<open>u\<close>.
\<close>

type_synonym pystr = "nat list"
type_synonym byte = "8 word"

definition u :: "string \<Rightarrow> pystr" where
  "u s = map of_char s"

text \<open>The value \<open>json.loads\<close> returns. A dict keeps its keys in insertion order.\<close>

datatype json =
    JNull
  | JBool bool
  | JInt int
  | JFloat rat
  | JStr pystr
  | JList "json list"
  | JObj "(pystr \<times> json) list"

type_synonym doc = "(pystr \<times> json) list"

datatype py_error =
    AttributeError
  | UnicodeEncodeError
  | TypeError
  | KeyError pystr
  | JSONDecodeError
  | ValidationError
  | OSError
  | FileNotFoundError pystr
  | RuntimeError pystr
  | Raised pystr

text \<open>\<open>k in d\<close> and \<open>d[k] = v\<close> on a dict: assignment keeps the position of a key that is
  present and appends a new one.\<close>

definition has_key :: "doc \<Rightarrow> pystr \<Rightarrow> bool" where
  "has_key d k = (map_of d k \<noteq> None)"

definition set_item :: "doc \<Rightarrow> pystr \<Rightarrow> json \<Rightarrow> doc" where
  "set_item d k v = AList.update k v d"

definition get_item :: "doc \<Rightarrow> pystr \<Rightarrow> py_error + json" where
  "get_item d k = (case map_of d k of None \<Rightarrow> Inl (KeyError k) | Some v \<Rightarrow> Inr v)"

subsection \<open>\<open>str.encode()\<close>: UTF-8, strict\<close>

definition utf8_char :: "nat \<Rightarrow> py_error + byte list" where
  "utf8_char c =
     (if c < 0x80 then Inr [of_nat c]
      else if c < 0x800 then Inr [of_nat (0xC0 + c div 64), of_nat (0x80 + c mod 64)]
      else if 0xD800 \<le> c \<and> c < 0xE000 then Inl UnicodeEncodeError
      else if c < 0x10000 then
        Inr [of_nat (0xE0 + c div 4096), of_nat (0x80 + (c div 64) mod 64),
             of_nat (0x80 + c mod 64)]
      else if c < 0x110000 then
        Inr [of_nat (0xF0 + c div 262144), of_nat (0x80 + (c div 4096) mod 64),
             of_nat (0x80 + (c div 64) mod 64), of_nat (0x80 + c mod 64)]
      else Inl UnicodeEncodeError)"

fun str_encode :: "pystr \<Rightarrow> py_error + byte list" where
  "str_encode [] = Inr []"
| "str_encode (c # cs) =
     (case utf8_char c of
        Inl e \<Rightarrow> Inl e
      | Inr bs \<Rightarrow> (case str_encode cs of Inl e \<Rightarrow> Inl e | Inr rest \<Rightarrow> Inr (bs @ rest)))"

text \<open>\<open>x.encode()\<close> on a JSON value: only \<open>str\<close> has the attribute.\<close>

fun encode_attr :: "json \<Rightarrow> py_error + byte list" where
  "encode_attr (JStr s) = str_encode s"
| "encode_attr _ = Inl AttributeError"

subsection \<open>\<open>hexdigest()\<close>\<close>

definition hexchar :: "nat \<Rightarrow> nat" where
  "hexchar n = (if n < 10 then 48 + n else 87 + n)"

definition hexdigest :: "byte list \<Rightarrow> pystr" where
  "hexdigest bs = concat (map (\<lambda>b. [hexchar (unat b div 16), hexchar (unat b mod 16)]) bs)"

section \<open>relation_engine_server/utils/bulk_import.py\<close>

definition k_key :: pystr where "k_key = u ''_key''"
definition k_from :: pystr where "k_from = u ''_from''"
definition k_to :: pystr where "k_to = u ''_to''"
definition k_updated_at :: pystr where "k_updated_at = u ''updated_at''"

text \<open>
  \<open>_write_edge_key(json_line)\<close>. \<open>hashlib.blake2b(data, digest_size=n)\<close> is the
  library's digest, taken as the parameter \<open>blake2b n data\<close>. The operands of \<open>+\<close> are
  evaluated left to right, so \<open>_from\<close> is encoded first.
\<close>

definition write_edge_key :: "(nat \<Rightarrow> byte list \<Rightarrow> byte list) \<Rightarrow> doc \<Rightarrow> py_error + doc" where
  "write_edge_key blake2b json_line =
     (if \<not> has_key json_line k_key \<and> has_key json_line k_from \<and> has_key json_line k_to then
        (case get_item json_line k_from of
           Inl e \<Rightarrow> Inl e
         | Inr vf \<Rightarrow>
            (case encode_attr vf of
               Inl e \<Rightarrow> Inl e
             | Inr bf \<Rightarrow>
                (case get_item json_line k_to of
                   Inl e \<Rightarrow> Inl e
                 | Inr vt \<Rightarrow>
                    (case encode_attr vt of
                       Inl e \<Rightarrow> Inl e
                     | Inr bt \<Rightarrow>
                        Inr (set_item json_line k_key
                               (JStr (hexdigest (blake2b 8 (bf @ bt)))))))))
      else Inr json_line)"

subsection \<open>\<open>bulk_import\<close>: the world it acts on\<close>

text \<open>
  The file system holds, for each path, the chunks written to it. The clock is read by
  \<open>time.time()\<close>; \<open>ticks\<close> counts the readings taken so far.
\<close>

record world =
  files :: "pystr \<rightharpoonup> pystr list"
  ticks :: nat

text \<open>
  What the module imports: \<open>get_collection\<close>, \<open>get_schema_validator\<close> and
  \<open>import_from_file\<close> of this package, \<open>json\<close>, \<open>hashlib\<close>, \<open>time\<close> and
  \<open>tempfile\<close> of the library. A validator is the predicate under which
  \<open>validate\<close> does not raise. The loader may change the world in any way.
  \<open>float_mul\<close> is the product of two floats, rounded as the machine does.
\<close>

record bulk_env =
  get_collection :: "pystr \<Rightarrow> py_error + pystr"
  get_schema_validator :: "pystr \<Rightarrow> pystr \<Rightarrow> py_error + (json \<Rightarrow> bool)"
  import_from_file :: "pystr \<Rightarrow> (pystr \<times> pystr) list \<Rightarrow> world \<Rightarrow> (py_error + json) \<times> world"
  json_loads :: "byte list \<Rightarrow> py_error + json"
  json_dumps :: "json \<Rightarrow> pystr"
  blake2b :: "nat \<Rightarrow> byte list \<Rightarrow> byte list"
  time_time :: "nat \<Rightarrow> rat"
  float_mul :: "rat \<Rightarrow> rat \<Rightarrow> rat"
  mktemp :: "world \<Rightarrow> pystr"

text \<open>\<open>int(x)\<close> on a float truncates towards zero.\<close>

definition py_int :: "rat \<Rightarrow> int" where
  "py_int r = (if 0 \<le> r then \<lfloor>r\<rfloor> else \<lceil>r\<rceil>)"

text \<open>\<open>tempfile.NamedTemporaryFile(mode="a", delete=False)\<close>: a new, empty file.\<close>

definition named_temporary_file :: "bulk_env \<Rightarrow> world \<Rightarrow> pystr \<times> world" where
  "named_temporary_file E w = (mktemp E w, w\<lparr>files := (files w)(mktemp E w \<mapsto> [])\<rparr>)"

text \<open>\<open>temp_fd.write(s)\<close> in append mode.\<close>

definition fd_write :: "pystr \<Rightarrow> pystr \<Rightarrow> world \<Rightarrow> world" where
  "fd_write name s w =
     w\<lparr>files := (files w)(name \<mapsto> (case files w name of None \<Rightarrow> [] | Some cs \<Rightarrow> cs) @ [s])\<rparr>"

definition os_remove :: "pystr \<Rightarrow> world \<Rightarrow> (py_error + unit) \<times> world" where
  "os_remove name w =
     (if files w name = None then (Inl (FileNotFoundError name), w)
      else (Inr (), w\<lparr>files := (files w)(name := None)\<rparr>))"

text \<open>
  The body of the \<open>for\<close> loop up to the string handed to \<open>write\<close>. A parsed value
  that is not a dict ends in \<open>TypeError\<close>, inside \<open>_write_edge_key\<close> or at the
  assignment of \<open>updated_at\<close>; whether the clock was read before that exception is
  not recorded.
\<close>

definition stamp_line ::
  "bulk_env \<Rightarrow> (json \<Rightarrow> bool) \<Rightarrow> byte list \<Rightarrow> world \<Rightarrow> (py_error + pystr) \<times> world" where
  "stamp_line E validator line w =
     (case json_loads E line of
        Inl e \<Rightarrow> (Inl e, w)
      | Inr json_line \<Rightarrow>
          if \<not> validator json_line then (Inl ValidationError, w)
          else (case json_line of
                  JObj d \<Rightarrow>
                    (case write_edge_key (blake2b E) d of
                       Inl e \<Rightarrow> (Inl e, w)
                     | Inr d' \<Rightarrow>
                         (Inr (json_dumps E
                                 (JObj (set_item d' k_updated_at
                                    (JInt (py_int (float_mul E (time_time E (ticks w)) 1000)))))
                               @ u ''\<newline>''),
                          w\<lparr>ticks := Suc (ticks w)\<rparr>))
                | _ \<Rightarrow> (Inl TypeError, w)))"

fun write_lines ::
  "bulk_env \<Rightarrow> (json \<Rightarrow> bool) \<Rightarrow> pystr \<Rightarrow> byte list list \<Rightarrow> world \<Rightarrow> (py_error + unit) \<times> world" where
  "write_lines E validator name [] w = (Inr (), w)"
| "write_lines E validator name (line # rest) w =
     (case stamp_line E validator line w of
        (Inl e, w') \<Rightarrow> (Inl e, w')
      | (Inr s, w') \<Rightarrow> write_lines E validator name rest (fd_write name s w'))"

text \<open>The \<open>try\<close> block: the loop, \<open>close\<close>, then the loader.\<close>

definition try_block ::
  "bulk_env \<Rightarrow> (json \<Rightarrow> bool) \<Rightarrow> pystr \<Rightarrow> (pystr \<times> pystr) list \<Rightarrow> byte list list \<Rightarrow> world
     \<Rightarrow> (py_error + json) \<times> world" where
  "try_block E validator name query_params stream w =
     (case write_lines E validator name stream w of
        (Inl e, w') \<Rightarrow> (Inl e, w')
      | (Inr _, w') \<Rightarrow> import_from_file E name query_params w')"

text \<open>
  \<open>bulk_import(query_params)\<close>, with the lines of \<open>flask.request.stream\<close> as an
  argument. An exception raised by the \<open>finally\<close> clause replaces the outcome of the
  \<open>try\<close> block.
\<close>

definition bulk_import ::
  "bulk_env \<Rightarrow> (pystr \<times> pystr) list \<Rightarrow> byte list list \<Rightarrow> world \<Rightarrow> (py_error + json) \<times> world" where
  "bulk_import E query_params stream w =
     (case map_of query_params (u ''collection'') of
        None \<Rightarrow> (Inl (KeyError (u ''collection'')), w)
      | Some c \<Rightarrow>
         (case get_collection E c of
            Inl e \<Rightarrow> (Inl e, w)
          | Inr schema_file \<Rightarrow>
             (case get_schema_validator E schema_file (u ''/schema'') of
                Inl e \<Rightarrow> (Inl e, w)
              | Inr validator \<Rightarrow>
                 (case named_temporary_file E w of
                    (name, w1) \<Rightarrow>
                      (case try_block E validator name query_params stream w1 of
                         (resp, w2) \<Rightarrow>
                           (case os_remove name w2 of
                              (Inl e, w3) \<Rightarrow> (Inl e, w3)
                            | (Inr _, w3) \<Rightarrow> (resp, w3)))))))"

section \<open>importers/data_sources/importer.py\<close>

text \<open>\<open>note(type, message)\<close>: the line printed to the console.\<close>

definition note_line :: "pystr \<Rightarrow> pystr \<Rightarrow> pystr" where
  "note_line type message =
     (let icon =
        (if type = u ''info'' then [0x2139]
         else if type = u ''success'' then [0x2713]
         else if type = u ''warning'' then [0x26A0]
         else if type = u ''error'' then [0x1F41B]
         else u ''?'')
      in u ''[importer] '' @ icon @ u '' '' @ message)"

text \<open>
  A validation error as the importer reads it: \<open>e.message\<close>, and \<open>str(e)\<close>, the sort key.
\<close>

record verror =
  err_message :: pystr
  err_str :: pystr

text \<open>An HTTP response as \<open>save_docs\<close> reads it: \<open>ok\<close>, \<open>text\<close>, and the items of
  \<open>json()\<close> with their values already rendered by \<open>str\<close>.\<close>

record response =
  ok :: bool
  resp_text :: pystr
  resp_json :: "py_error + (pystr \<times> pystr) list"

record put_request =
  url :: pystr
  params :: "(pystr \<times> pystr) list"
  headers :: "(pystr \<times> pystr) list"
  data :: pystr

text \<open>
  What the importer sees of the outside: its configuration (\<open>self._config\<close>), the
  directory of the source file, the schema validator of this package (given by its
  \<open>iter_errors\<close>), the data file (\<open>open\<close> followed by \<open>json.load\<close>), \<open>json.dumps\<close> and
  \<open>requests.put\<close>.
\<close>

record importer_env =
  config :: "(pystr \<times> pystr) list"
  dir_path :: pystr
  schema_validator :: "pystr \<Rightarrow> py_error + (json \<Rightarrow> verror list)"
  open_json :: "pystr \<Rightarrow> py_error + json"
  dumps :: "json \<Rightarrow> pystr"
  requests_put :: "put_request \<Rightarrow> response"

text \<open>
  What a call leaves behind: the console lines, the requests sent, and the invocations
  of \<open>save_docs\<close> with their arguments.
\<close>

record effects =
  console :: "pystr list"
  puts :: "put_request list"
  save_docs_calls :: "(pystr \<times> json list) list"

definition say :: "pystr \<Rightarrow> pystr \<Rightarrow> effects \<Rightarrow> effects" where
  "say type message fx = fx\<lparr>console := console fx @ [note_line type message]\<rparr>"

text \<open>\<open>os.path.join\<close> of two components, and of a list of them.\<close>

definition path_join :: "pystr \<Rightarrow> pystr \<Rightarrow> pystr" where
  "path_join a b =
     (if b \<noteq> [] \<and> hd b = 47 then b
      else if a = [] \<or> last a = 47 then a @ b
      else a @ [47] @ b)"

definition get_dataset_schema_dir :: "importer_env \<Rightarrow> pystr" where
  "get_dataset_schema_dir E =
     foldl path_join (dir_path E)
       [u ''../'', u ''../'', u ''spec'', u ''datasets'', u ''data_sources'']"

definition get_relative_dir :: "importer_env \<Rightarrow> pystr \<Rightarrow> pystr" where
  "get_relative_dir E path = path_join (dir_path E) path"

definition get_config_or_fail :: "importer_env \<Rightarrow> pystr \<Rightarrow> py_error + pystr" where
  "get_config_or_fail E key =
     (case map_of (config E) key of
        None \<Rightarrow> Inl (KeyError (u ''No such config key: '' @ [34] @ key @ [34]))
      | Some v \<Rightarrow> Inr v)"

definition get_config :: "importer_env \<Rightarrow> pystr \<Rightarrow> pystr option \<Rightarrow> pystr option" where
  "get_config E key default_value =
     (case map_of (config E) key of None \<Rightarrow> default_value | Some v \<Rightarrow> Some v)"

text \<open>\<open>except OSError\<close> catches the class and its subclasses.\<close>

fun is_os_error :: "py_error \<Rightarrow> bool" where
  "is_os_error OSError = True"
| "is_os_error (FileNotFoundError _) = True"
| "is_os_error _ = False"

text \<open>\<open>for x in v\<close>: the items a JSON value yields, or \<open>TypeError\<close>.\<close>

fun py_iter :: "json \<Rightarrow> py_error + json list" where
  "py_iter (JList xs) = Inr xs"
| "py_iter (JObj d) = Inr (map (\<lambda>kv. JStr (fst kv)) d)"
| "py_iter (JStr s) = Inr (map (\<lambda>c. JStr [c]) s)"
| "py_iter _ = Inl TypeError"

text \<open>\<open>data_source['_key'] = data_source['ns']\<close>.\<close>

fun key_from_ns :: "json \<Rightarrow> py_error + json" where
  "key_from_ns (JObj d) =
     (case get_item d (u ''ns'') of
        Inl e \<Rightarrow> Inl e
      | Inr v \<Rightarrow> Inr (JObj (set_item d k_key v)))"
| "key_from_ns _ = Inl TypeError"

text \<open>
  The inner loop over \<open>sorted(validator.iter_errors(data_source), key=str)\<close>: each
  error sets the flag and is reported. \<open>sorted\<close> is stable.
\<close>

definition report_errors :: "verror list \<Rightarrow> bool \<times> effects \<Rightarrow> bool \<times> effects" where
  "report_errors errs st =
     foldl (\<lambda>st e. (True, say (u ''error'') (u ''Validation error: '' @ err_message e) (snd st)))
       st (sort_key err_str errs)"

text \<open>
  The loop over \<open>data_sources\<close>. \<open>validator.is_valid(x)\<close> is, in the validation
  library, the absence of a first element of \<open>iter_errors(x)\<close>. The state is
  \<open>is_error\<close>, \<open>data_sources_to_save\<close> and the effects.
\<close>

fun validate_loop ::
  "(json \<Rightarrow> verror list) \<Rightarrow> json list \<Rightarrow> bool \<Rightarrow> json list \<Rightarrow> effects
     \<Rightarrow> (py_error + bool \<times> json list) \<times> effects" where
  "validate_loop iter_errors [] is_error to_save fx = (Inr (is_error, to_save), fx)"
| "validate_loop iter_errors (data_source # rest) is_error to_save fx =
     (if iter_errors data_source \<noteq> [] then
        (case report_errors (iter_errors data_source) (is_error, fx) of
           (is_error', fx') \<Rightarrow> validate_loop iter_errors rest is_error' to_save fx')
      else
        (case key_from_ns data_source of
           Inl e \<Rightarrow> (Inl e, fx)
         | Inr keyed \<Rightarrow> validate_loop iter_errors rest is_error (to_save @ [keyed]) fx))"

text \<open>\<open>"\n".join(parts)\<close>.\<close>

fun join_lines :: "pystr list \<Rightarrow> pystr" where
  "join_lines [] = []"
| "join_lines [x] = x"
| "join_lines (x # y # ys) = x @ [10] @ join_lines (y # ys)"

definition save_docs ::
  "importer_env \<Rightarrow> pystr \<Rightarrow> json list \<Rightarrow> pystr \<Rightarrow> effects \<Rightarrow> (py_error + response) \<times> effects" where
  "save_docs E collection docs on_duplicate fx0 =
     (let fx = fx0\<lparr>save_docs_calls := save_docs_calls fx0 @ [(collection, docs)]\<rparr> in
      case get_config_or_fail E (u ''API_URL'') of
        Inl e \<Rightarrow> (Inl e, fx)
      | Inr api_url \<Rightarrow>
         (case get_config_or_fail E (u ''AUTH_TOKEN'') of
            Inl e \<Rightarrow> (Inl e, fx)
          | Inr token \<Rightarrow>
             (let req = \<lparr>url = api_url @ u ''/api/v1/documents'',
                         params = [(u ''collection'', collection),
                                   (u ''on_duplicate'', on_duplicate)],
                         headers = [(u ''Authorization'', token)],
                         data = join_lines (map (dumps E) docs)\<rparr>;
                  resp = requests_put E req;
                  fx1 = fx\<lparr>puts := puts fx @ [req]\<rparr>
              in if \<not> ok resp then (Inl (RuntimeError (resp_text resp)), fx1)
                 else
                   (let fx2 = say (u ''success'')
                                (u ''Saved docs to collection '' @ collection @ u ''!'') fx1
                    in case resp_json resp of
                         Inl e \<Rightarrow> (Inl e, fx2)
                       | Inr items \<Rightarrow>
                           (Inr resp,
                            foldl (\<lambda>f kv. say (u ''info'')
                                     (u ''     '' @ fst kv @ u '': '' @ snd kv) f)
                              fx2 items)))))"

definition str_bool :: "bool \<Rightarrow> pystr" where
  "str_bool b = (if b then u ''True'' else u ''False'')"

text \<open>
  \<open>Importer.load_data(dry_run)\<close>, from line 148 on: the loop, the decision, the save.
\<close>

definition validate_and_save ::
  "importer_env \<Rightarrow> (json \<Rightarrow> verror list) \<Rightarrow> json list \<Rightarrow> bool \<Rightarrow> effects
     \<Rightarrow> (py_error + bool) \<times> effects" where
  "validate_and_save E iter_errors data_sources dry_run fx =
     (case validate_loop iter_errors data_sources False [] fx of
        (Inl e, fx1) \<Rightarrow> (Inl e, fx1)
      | (Inr (is_error, data_sources_to_save), fx1) \<Rightarrow>
          if is_error then
            (let fx2 = say (u ''error'') (u ''Data did not validate'') fx1;
                 fx3 = (if dry_run
                        then say (u ''error'') (u ''Dry run completed with errors'') fx2
                        else say (u ''error'') (u ''Due to errors, data will not be loaded'') fx2)
             in (Inr False, fx3))
          else
            (let fx2 = say (u ''success'') (u ''Data loaded and validated successfully'') fx1
             in if dry_run then
                  (Inr True,
                   say (u ''warning'') (u ''REMEMBER: Data not loaded'')
                     (say (u ''success'') (u ''Dry run completed successfully'') fx2))
                else
                  (case save_docs E (u ''data_sources_nodes'') data_sources_to_save
                          (u ''update'') fx2 of
                     (Inl e, fx3) \<Rightarrow> (Inl e, fx3)
                   | (Inr _, fx3) \<Rightarrow> (Inr True, fx3))))"

text \<open>\<open>Importer.load_data(dry_run)\<close>, whole.\<close>

definition load_data :: "importer_env \<Rightarrow> bool \<Rightarrow> effects \<Rightarrow> (py_error + bool) \<times> effects" where
  "load_data E dry_run fx0 =
     (let fx1 = say (u ''info'') (u ''Parameters:'') (say (u ''info'') (u ''Loading data'') fx0) in
      case get_config_or_fail E (u ''API_URL'') of
        Inl e \<Rightarrow> (Inl e, fx1)
      | Inr api_url \<Rightarrow>
         (let fx2 = say (u ''info'') (u ''     dry run: '' @ str_bool dry_run)
                      (say (u ''info'') (u ''     API_URL: '' @ api_url) fx1);
              default_data_dir = get_relative_dir E (u ''data'');
              env_data_dir = get_config E (u ''ROOT_DATA_PATH'') None;
              fx3 = (case env_data_dir of
                       Some _ \<Rightarrow> say (u ''info'')
                         (u ''     (Taking data dir from environment variable '' @ [34]
                            @ u ''RES_ROOT_DATA_PATH'' @ [34] @ u '')'') fx2
                     | None \<Rightarrow> say (u ''info'') (u ''     (Taking data dir from default)'') fx2);
              data_dir = (case env_data_dir of Some d \<Rightarrow> d | None \<Rightarrow> default_data_dir);
              fx4 = say (u ''info'') (u ''     data_dir: '' @ [34] @ data_dir @ [34]) fx3;
              schema_file = path_join (get_dataset_schema_dir E) (u ''data_sources_nodes.yaml'')
          in case schema_validator E schema_file of
               Inl e \<Rightarrow> (Inl e, fx4)
             | Inr iter_errors \<Rightarrow>
                (case open_json E (path_join data_dir (u ''data_sources.json'')) of
                   Inl e \<Rightarrow>
                     if is_os_error e
                     then (Inr False, say (u ''error'') (u ''Error loading import data file'') fx4)
                     else (Inl e, fx4)
                 | Inr loaded \<Rightarrow>
                    (case py_iter loaded of
                       Inl e \<Rightarrow> (Inl e, fx4)
                     | Inr data_sources \<Rightarrow>
                         validate_and_save E iter_errors data_sources dry_run fx4))))"

text \<open>The lines the loop reports for one document.\<close>

definition error_lines :: "(json \<Rightarrow> verror list) \<Rightarrow> json \<Rightarrow> pystr list" where
  "error_lines iter_errors d =
     map (\<lambda>e. note_line (u ''error'') (u ''Validation error: '' @ err_message e))
       (sort_key err_str (iter_errors d))"


section \<open>The network data parser\<close>

text \<open>
  The parser that \<open>importers/test/test_djornl_parser.py\<close> exercises is not among the
  sources. The definitions of this section are modelled from the specification
  (sections 3, 4.1 to 4.6 and 7) and from the messages the tests expect.
\<close>

text \<open>Modelled from the spec: the parser's file roles are missing; a file is an edge file, a node
  metadata file or a cluster file.\<close>

datatype role = Edges | NodeMetadata | Cluster

text \<open>Modelled from the spec: the parser itself is missing; a file descriptor of the
  manifest is its relative path, role, expected column count, the index of the type
  column if there is one, and the vocabulary of that column.\<close>

record descriptor =
  d_path :: pystr
  d_role :: role
  expected_columns :: nat
  type_column_index :: "nat option"
  vocabulary :: "pystr list"

type_synonym manifest = "descriptor list"

text \<open>Modelled from the spec: the parser's exceptions are missing; the two fatal error kinds of
  section 7, each with its message.\<close>

datatype parser_error = ConfigurationError pystr | FormatError pystr

text \<open>Modelled from the spec: the file system calls are missing; a path that exists is a regular
  file or a directory.\<close>

datatype path_kind = IsFile | IsDirectory

text \<open>Modelled from the spec: the parser's file reading is missing; a data file is its
  header row, when it has one, and its data rows, each row the list of its columns
  (splitting a line at the delimiter is not modelled).\<close>

record table_file =
  header :: "pystr list option"
  data_rows :: "pystr list list"

text \<open>Modelled from the spec: what the parser reads is missing; the root data directory
  is seen through the kind of each path, the manifest document at a path after parsing
  and schema validation (the violations, or the manifest), and the table at a path.\<close>

record parser_env =
  path_kind :: "pystr \<Rightarrow> path_kind option"
  read_manifest :: "pystr \<Rightarrow> pystr + manifest"
  read_table :: "pystr \<Rightarrow> table_file"

text \<open>Modelled from the spec: the formatting of the messages is missing; numbers are
  written in decimal, as \<open>str(n)\<close> does.\<close>

fun str_nat :: "nat \<Rightarrow> pystr" where
  "str_nat n = (if n < 10 then [48 + n] else str_nat (n div 10) @ [48 + n mod 10])"

declare str_nat.simps [simp del]

subsection \<open>Manifest loader (4.1)\<close>

text \<open>Modelled from the spec: the check of one referenced path is missing; a directory
  is ``not a file'', an absent path ``does not exist''.\<close>

definition check_file :: "parser_env \<Rightarrow> pystr \<Rightarrow> descriptor \<Rightarrow> parser_error option" where
  "check_file E root_dir d =
     (let p = path_join root_dir (d_path d) in
      case path_kind E p of
        Some IsFile \<Rightarrow> None
      | Some IsDirectory \<Rightarrow> Some (ConfigurationError (p @ u '': not a file''))
      | None \<Rightarrow> Some (ConfigurationError (p @ u '': file does not exist'')))"

fun check_files :: "parser_env \<Rightarrow> pystr \<Rightarrow> descriptor list \<Rightarrow> parser_error option" where
  "check_files E root_dir [] = None"
| "check_files E root_dir (d # ds) =
     (case check_file E root_dir d of Some e \<Rightarrow> Some e | None \<Rightarrow> check_files E root_dir ds)"

text \<open>Modelled from the spec: \<open>configure\<close> is missing; it looks for
  \<open>manifest.yaml\<close> under the root, validates it, then checks every referenced path.
  The validation message starts with the marker and may go on with the violations.\<close>

definition configure :: "parser_env \<Rightarrow> pystr \<Rightarrow> parser_error + manifest" where
  "configure E root_dir =
     (let manifest_path = path_join root_dir (u ''manifest.yaml'') in
      if path_kind E manifest_path \<noteq> Some IsFile then
        Inl (ConfigurationError (u ''No manifest file found at '' @ manifest_path))
      else
        (case read_manifest E manifest_path of
           Inl violations \<Rightarrow>
             Inl (ConfigurationError (u ''The manifest file failed validation'' @ violations))
         | Inr m \<Rightarrow>
             (case check_files E root_dir m of Some e \<Rightarrow> Inl e | None \<Rightarrow> Inr m)))"

subsection \<open>Structural row validator and type vocabulary checker (4.2, 4.3)\<close>

text \<open>Modelled from the spec: the wording of the vocabulary message is missing; it says
  \<open>edge\<close> for edge files and \<open>node\<close> for the files that yield nodes.\<close>

definition role_word :: "role \<Rightarrow> pystr" where
  "role_word r = (case r of Edges \<Rightarrow> u ''edge'' | NodeMetadata \<Rightarrow> u ''node'' | Cluster \<Rightarrow> u ''node'')"

text \<open>Modelled from the spec: the vocabulary check is missing; a row passes when the
  descriptor has no type column, or the value in that column is in the vocabulary.\<close>

definition type_ok :: "descriptor \<Rightarrow> pystr list \<Rightarrow> bool" where
  "type_ok d cols =
     (case type_column_index d of
        None \<Rightarrow> True
      | Some i \<Rightarrow> i < length cols \<longrightarrow> cols ! i \<in> set (vocabulary d))"

text \<open>Modelled from the spec: the value reported is missing; it is the content of the type
  column.\<close>

definition type_value :: "descriptor \<Rightarrow> pystr list \<Rightarrow> pystr" where
  "type_value d cols = (case type_column_index d of None \<Rightarrow> [] | Some i \<Rightarrow> cols ! i)"

text \<open>Modelled from the spec: the per-row check is missing; the column count comes
  first, then the vocabulary, both under the same file name and line number.\<close>

definition check_row :: "descriptor \<Rightarrow> nat \<Rightarrow> pystr list \<Rightarrow> parser_error option" where
  "check_row d n cols =
     (if length cols \<noteq> expected_columns d then
        Some (FormatError (d_path d @ u '' line '' @ str_nat n @ u '': expected ''
                @ str_nat (expected_columns d) @ u '' cols, found '' @ str_nat (length cols)))
      else if \<not> type_ok d cols then
        Some (FormatError (d_path d @ u '' line '' @ str_nat n @ u '': invalid ''
                @ role_word (d_role d) @ u '' type: '' @ type_value d cols))
      else None)"

text \<open>Modelled from the spec: the scan is missing; it reads the rows in order from line
  \<open>n\<close>, stops at the first row that fails, and yields the rows with their line
  numbers. The second component lists the lines read.\<close>

fun scan_rows ::
  "descriptor \<Rightarrow> nat \<Rightarrow> pystr list list \<Rightarrow> (parser_error + (nat \<times> pystr list) list) \<times> nat list" where
  "scan_rows d n [] = (Inr [], [])"
| "scan_rows d n (cols # rest) =
     (case check_row d n cols of
        Some e \<Rightarrow> (Inl e, [n])
      | None \<Rightarrow>
          (case scan_rows d (Suc n) rest of
             (Inl e, seen) \<Rightarrow> (Inl e, n # seen)
           | (Inr rows, seen) \<Rightarrow> (Inr ((n, cols) # rows), n # seen)))"

text \<open>Modelled from the spec: line numbering is missing; lines count from 1 and a
  header row, when there is one, is line 1, so the data rows start at line 1 or 2.\<close>

definition first_line :: "table_file \<Rightarrow> nat" where
  "first_line t = (case header t of None \<Rightarrow> 1 | Some _ \<Rightarrow> 2)"

text \<open>Modelled from the spec: reading one file is missing; the header row is read, and
  is neither checked nor yielded; then the data rows are scanned.\<close>

definition scan_file ::
  "parser_env \<Rightarrow> pystr \<Rightarrow> descriptor
     \<Rightarrow> (parser_error + (nat \<times> pystr list) list) \<times> (pystr \<times> nat) list" where
  "scan_file E root_dir d =
     (let t = read_table E (path_join root_dir (d_path d))
      in case scan_rows d (first_line t) (data_rows t) of
           (r, seen) \<Rightarrow> (r, map (Pair (d_path d)) ([1..<first_line t] @ seen)))"

text \<open>Modelled from the spec: the loop over the files of a role is missing; the files are read
  one at a time, in manifest order, and the first violation ends the call.\<close>

fun scan_files ::
  "parser_env \<Rightarrow> pystr \<Rightarrow> descriptor list
     \<Rightarrow> (parser_error + (descriptor \<times> pystr list) list) \<times> (pystr \<times> nat) list" where
  "scan_files E root_dir [] = (Inr [], [])"
| "scan_files E root_dir (d # ds) =
     (case scan_file E root_dir d of
        (Inl e, seen) \<Rightarrow> (Inl e, seen)
      | (Inr rows, seen) \<Rightarrow>
          (case scan_files E root_dir ds of
             (Inl e, seen') \<Rightarrow> (Inl e, seen @ seen')
           | (Inr later, seen2) \<Rightarrow> (Inr (map (\<lambda>r. (d, snd r)) rows @ later), seen @ seen2)))"

text \<open>Modelled from the spec: the selection of the files of a role is missing; a loader takes
  the descriptors of its role, in manifest order.\<close>

definition of_role :: "role \<Rightarrow> manifest \<Rightarrow> descriptor list" where
  "of_role r m = filter (\<lambda>d. d_role d = r) m"

subsection \<open>Loaders (4.4 to 4.6)\<close>

text \<open>Modelled from the spec: the records are missing; a node and an edge as in section 3.\<close>

record node =
  n_key :: pystr
  n_type :: pystr
  n_attributes :: "(pystr \<times> pystr) list"

record edge =
  e_key :: pystr
  e_from :: pystr
  e_to :: pystr
  e_type :: pystr
  e_attributes :: "(pystr \<times> pystr) list"

text \<open>Modelled from the spec: how a row becomes a record is missing, and the spec does
  not say which columns hold what; the three conversions are parameters.\<close>

record row_readers =
  edge_of_row :: "descriptor \<Rightarrow> pystr list \<Rightarrow> edge"
  node_of_row :: "descriptor \<Rightarrow> pystr list \<Rightarrow> node"
  cluster_node_of_row :: "descriptor \<Rightarrow> pystr list \<Rightarrow> node"

text \<open>Modelled from the spec: the containers are missing; \<open>{"nodes": [...]}\<close> and
  \<open>{"nodes": [...], "edges": [...]}\<close>.\<close>

record nodes_result =
  r_nodes :: "node list"

record edges_result = nodes_result +
  r_edges :: "edge list"

text \<open>Modelled from the spec: the node stub is missing; an endpoint identifier with no type and
  no attributes.\<close>

definition stub :: "pystr \<Rightarrow> node" where
  "stub k = \<lparr>n_key = k, n_type = [], n_attributes = []\<rparr>"

text \<open>Modelled from the spec: \<open>load_edges\<close> is missing; one edge per row of the edge
  files, one stub per distinct endpoint, nothing on a violation.\<close>

definition load_edges ::
  "parser_env \<Rightarrow> row_readers \<Rightarrow> pystr \<Rightarrow> manifest
     \<Rightarrow> (parser_error + edges_result) \<times> (pystr \<times> nat) list" where
  "load_edges E R root_dir m =
     (case scan_files E root_dir (of_role Edges m) of
        (Inl e, seen) \<Rightarrow> (Inl e, seen)
      | (Inr rows, seen) \<Rightarrow>
          (let es = map (\<lambda>dr. edge_of_row R (fst dr) (snd dr)) rows
           in (Inr \<lparr>r_nodes = map stub (remdups (concat (map (\<lambda>e. [e_from e, e_to e]) es))),
                    r_edges = es\<rparr>,
               seen)))"

text \<open>Modelled from the spec: \<open>load_node_metadata\<close> is missing; one node per row of
  the node metadata files.\<close>

definition load_node_metadata ::
  "parser_env \<Rightarrow> row_readers \<Rightarrow> pystr \<Rightarrow> manifest
     \<Rightarrow> (parser_error + nodes_result) \<times> (pystr \<times> nat) list" where
  "load_node_metadata E R root_dir m =
     (case scan_files E root_dir (of_role NodeMetadata m) of
        (Inl e, seen) \<Rightarrow> (Inl e, seen)
      | (Inr rows, seen) \<Rightarrow>
          (Inr \<lparr>r_nodes = map (\<lambda>dr. node_of_row R (fst dr) (snd dr)) rows\<rparr>, seen))"

text \<open>Modelled from the spec: \<open>load_cluster_data\<close> is missing; one node per row of the
  cluster files.\<close>

definition load_cluster_data ::
  "parser_env \<Rightarrow> row_readers \<Rightarrow> pystr \<Rightarrow> manifest
     \<Rightarrow> (parser_error + nodes_result) \<times> (pystr \<times> nat) list" where
  "load_cluster_data E R root_dir m =
     (case scan_files E root_dir (of_role Cluster m) of
        (Inl e, seen) \<Rightarrow> (Inl e, seen)
      | (Inr rows, seen) \<Rightarrow>
          (Inr \<lparr>r_nodes = map (\<lambda>dr. cluster_node_of_row R (fst dr) (snd dr)) rows\<rparr>, seen))"

subsection \<open>Vocabulary for the statements about the loaders\<close>

text \<open>A row that passes both checks; a file all of whose rows do; the lines of a file
  from 1 to \<open>n\<close>; the lines of a whole file.\<close>

definition row_ok :: "descriptor \<Rightarrow> pystr list \<Rightarrow> bool" where
  "row_ok d cols = (length cols = expected_columns d \<and> type_ok d cols)"

definition lines_upto :: "descriptor \<Rightarrow> nat \<Rightarrow> (pystr \<times> nat) list" where
  "lines_upto d n = map (Pair (d_path d)) [1..<Suc n]"

definition whole_file :: "parser_env \<Rightarrow> pystr \<Rightarrow> descriptor \<Rightarrow> (pystr \<times> nat) list" where
  "whole_file E root_dir d =
     (let t = read_table E (path_join root_dir (d_path d))
      in map (Pair (d_path d)) [1..<first_line t + length (data_rows t)])"

definition clean_file :: "parser_env \<Rightarrow> pystr \<Rightarrow> descriptor \<Rightarrow> bool" where
  "clean_file E root_dir d =
     (\<forall>cols\<in>set (data_rows (read_table E (path_join root_dir (d_path d)))). row_ok d cols)"


text \<open>
  A stand-in for the library digest, of the requested length, at which the closed
  statements below instantiate the parameter.
\<close>

definition pad_digest :: "nat \<Rightarrow> byte list \<Rightarrow> byte list" where
  "pad_digest n bs = take n (bs @ replicate n 0)"

text \<open>
  Sample collaborators, for the closed statements: a decoder of two-byte and one-byte
  lines, a validator that rejects one document, a serialiser that lists the keys, a
  loader that counts the chunks of the file and refuses an empty one.
\<close>

definition sample_loads :: "byte list \<Rightarrow> py_error + json" where
  "sample_loads line =
     (case line of
        [a, b] \<Rightarrow> Inr (JObj [(k_from, JStr [unat a]), (k_to, JStr [unat b])])
      | [a] \<Rightarrow> Inr (JObj [(k_to, JInt (uint a))])
      | _ \<Rightarrow> Inl JSONDecodeError)"

definition sample_validator :: "json \<Rightarrow> bool" where
  "sample_validator j = (j \<noteq> JObj [(k_to, JInt 0)])"

fun sample_dumps :: "json \<Rightarrow> pystr" where
  "sample_dumps (JObj d) = concat (map fst d)"
| "sample_dumps _ = []"

definition sample_loader :: "pystr \<Rightarrow> (pystr \<times> pystr) list \<Rightarrow> world \<Rightarrow> (py_error + json) \<times> world" where
  "sample_loader name query_params w =
     (case files w name of
        None \<Rightarrow> (Inl (FileNotFoundError name), w)
      | Some chunks \<Rightarrow>
          if chunks = [] then (Inl (RuntimeError (u ''nothing to import'')), w)
          else (Inr (JInt (int (length chunks))), w))"

definition sample_env :: bulk_env where
  "sample_env =
     \<lparr>get_collection = (\<lambda>c. Inr (c @ u ''.yaml'')),
      get_schema_validator = (\<lambda>schema_file validate_at. Inr sample_validator),
      import_from_file = sample_loader,
      json_loads = sample_loads,
      json_dumps = sample_dumps,
      blake2b = pad_digest,
      time_time = (\<lambda>n. of_nat n + 3 / 2),
      float_mul = (\<lambda>a b. a * b),
      mktemp = (\<lambda>w. u ''tmp0'')\<rparr>"

definition w0 :: world where
  "w0 = \<lparr>files = Map.empty, ticks = 0\<rparr>"


text \<open>A sample importer: three documents, the second and third invalid.\<close>

definition sample_iter_errors :: "json \<Rightarrow> verror list" where
  "sample_iter_errors d =
     (case d of
        JObj obj \<Rightarrow>
          if has_key obj (u ''ns'') then []
          else [\<lparr>err_message = u ''ns is required'', err_str = u ''required''\<rparr>,
                \<lparr>err_message = u ''empty object'', err_str = u ''empty''\<rparr>]
      | _ \<Rightarrow> [\<lparr>err_message = u ''not an object'', err_str = u ''type''\<rparr>])"

definition sample_sources :: "json list" where
  "sample_sources = [JObj [(u ''ns'', JStr (u ''go''))], JObj [], JNull]"

definition sample_importer_env :: importer_env where
  "sample_importer_env =
     \<lparr>config = [(u ''API_URL'', u ''http://re''), (u ''AUTH_TOKEN'', u ''t'')],
      dir_path = u ''/app'',
      schema_validator = (\<lambda>schema_file. Inr sample_iter_errors),
      open_json = (\<lambda>file_path. Inr (JList sample_sources)),
      dumps = sample_dumps,
      requests_put = (\<lambda>req. \<lparr>ok = True, resp_text = [], resp_json = Inr []\<rparr>)\<rparr>"

definition fx0 :: effects where
  "fx0 = \<lparr>console = [], puts = [], save_docs_calls = []\<rparr>"


text \<open>
  A sample data directory: a manifest of three files, tables with a short row, with a
  value outside the vocabulary, and with headers only, and four states of the paths.
\<close>

definition sample_edges :: descriptor where
  "sample_edges = \<lparr>d_path = u ''edges.tsv'', d_role = Edges, expected_columns = 3,
                    type_column_index = Some 2,
                    vocabulary = [u ''regulatory'', u ''physical'']\<rparr>"

definition sample_nodes :: descriptor where
  "sample_nodes = \<lparr>d_path = u ''nodes.csv'', d_role = NodeMetadata, expected_columns = 2,
                    type_column_index = Some 1, vocabulary = [u ''gene'']\<rparr>"

definition sample_clusters :: descriptor where
  "sample_clusters = \<lparr>d_path = u ''clusters.tsv'', d_role = Cluster, expected_columns = 2,
                       type_column_index = None, vocabulary = []\<rparr>"

definition sample_manifest :: manifest where
  "sample_manifest = [sample_edges, sample_nodes, sample_clusters]"

definition tables_short_row :: "pystr \<Rightarrow> table_file" where
  "tables_short_row p =
     (if p = u ''data/edges.tsv'' then
        \<lparr>header = Some [u ''from'', u ''to'', u ''type''],
         data_rows = [[u ''a'', u ''b'', u ''regulatory''], [u ''a'', u ''c'']]\<rparr>
      else if p = u ''data/nodes.csv'' then
        \<lparr>header = Some [u ''id'', u ''type''],
         data_rows = [[u ''a'', u ''gene''], [u ''b'', u ''Monkey'']]\<rparr>
      else
        \<lparr>header = None, data_rows = [[u ''c1'', u ''a''], [u ''c2'']]\<rparr>)"

definition tables_bad_type :: "pystr \<Rightarrow> table_file" where
  "tables_bad_type p =
     (if p = u ''data/edges.tsv'' then
        \<lparr>header = Some [u ''from'', u ''to'', u ''type''],
         data_rows = [[u ''a'', u ''b'', u ''regulatory''], [u ''a'', u ''c'', u ''bogus-type'']]\<rparr>
      else if p = u ''data/nodes.csv'' then
        \<lparr>header = Some [u ''id'', u ''type''],
         data_rows = [[u ''a'', u ''gene'', u ''extra'']]\<rparr>
      else
        \<lparr>header = None, data_rows = []\<rparr>)"

definition tables_headers_only :: "pystr \<Rightarrow> table_file" where
  "tables_headers_only p =
     (if p = u ''data/clusters.tsv'' then \<lparr>header = None, data_rows = []\<rparr>
      else \<lparr>header = Some [u ''id'', u ''type''], data_rows = []\<rparr>)"

definition kinds_all :: "pystr \<Rightarrow> path_kind option" where
  "kinds_all p = Some IsFile"

definition kinds_none :: "pystr \<Rightarrow> path_kind option" where
  "kinds_none p = None"

definition kinds_edges_directory :: "pystr \<Rightarrow> path_kind option" where
  "kinds_edges_directory p = (if p = u ''data/edges.tsv'' then Some IsDirectory else Some IsFile)"

definition kinds_edges_missing :: "pystr \<Rightarrow> path_kind option" where
  "kinds_edges_missing p = (if p = u ''data/edges.tsv'' then None else Some IsFile)"

definition manifest_valid :: "pystr \<Rightarrow> pystr + manifest" where
  "manifest_valid p = Inr sample_manifest"

definition manifest_invalid :: "pystr \<Rightarrow> pystr + manifest" where
  "manifest_invalid p = Inl (u '': file_list is required'')"

definition sample_parser_env ::
  "(pystr \<Rightarrow> path_kind option) \<Rightarrow> (pystr \<Rightarrow> pystr + manifest) \<Rightarrow> (pystr \<Rightarrow> table_file) \<Rightarrow> parser_env" where
  "sample_parser_env kinds manifests tables =
     \<lparr>path_kind = kinds, read_manifest = manifests, read_table = tables\<rparr>"

definition sample_readers :: row_readers where
  "sample_readers =
     \<lparr>edge_of_row = (\<lambda>d cols. \<lparr>e_key = concat cols, e_from = hd cols, e_to = hd (tl cols),
                                  e_type = type_value d cols, e_attributes = []\<rparr>),
      node_of_row = (\<lambda>d cols. \<lparr>n_key = hd cols, n_type = type_value d cols, n_attributes = []\<rparr>),
      cluster_node_of_row = (\<lambda>d cols. \<lparr>n_key = hd (tl cols), n_type = [],
                                         n_attributes = [(u ''cluster'', hd cols)]\<rparr>)\<rparr>"


section \<open>Properties of the edge key\<close>

lemma hexchar_inj: "a < 16 \<Longrightarrow> b < 16 \<Longrightarrow> hexchar a = hexchar b \<Longrightarrow> a = b"
  by (simp add: hexchar_def split: if_splits)

lemma byte_bound: "unat (x :: byte) < 256"
  using unsigned_less [of x, where ?'a = nat] by simp

lemma hex_byte_inj:
  fixes x y :: byte
  assumes hi: "hexchar (unat x div 16) = hexchar (unat y div 16)"
      and lo: "hexchar (unat x mod 16) = hexchar (unat y mod 16)"
  shows "x = y"
proof -
  have dx: "unat x div 16 < 16" using byte_bound [of x] by (simp add: div_less_iff_less_mult)
  have dy: "unat y div 16 < 16" using byte_bound [of y] by (simp add: div_less_iff_less_mult)
  have d: "unat x div 16 = unat y div 16"
    by (rule hexchar_inj [OF dx dy hi])
  have mx: "unat x mod 16 < 16" by simp
  have my: "unat y mod 16 < 16" by simp
  have m: "unat x mod 16 = unat y mod 16"
    by (rule hexchar_inj [OF mx my lo])
  have "unat x = 16 * (unat x div 16) + unat x mod 16" by simp
  also have "\<dots> = 16 * (unat y div 16) + unat y mod 16" by (simp only: d m)
  also have "\<dots> = unat y" by simp
  finally show ?thesis by (simp only: word_unat_eq_iff)
qed

lemma hexdigest_Cons:
  "hexdigest (b # bs) = hexchar (unat b div 16) # hexchar (unat b mod 16) # hexdigest bs"
  by (simp add: hexdigest_def)

lemma length_hexdigest: "length (hexdigest bs) = 2 * length bs"
  by (induction bs) (simp_all add: hexdigest_def)

lemma hexdigest_inj: "hexdigest a = hexdigest b \<Longrightarrow> a = b"
proof (induction a arbitrary: b)
  case Nil
  then show ?case by (cases b) (simp_all add: hexdigest_def)
next
  case (Cons x xs)
  show ?case
  proof (cases b)
    case Nil
    with Cons.prems show ?thesis by (simp add: hexdigest_def)
  next
    case tl: (Cons y ys)
    from Cons.prems tl
    have h1: "hexchar (unat x div 16) = hexchar (unat y div 16)"
      and h2: "hexchar (unat x mod 16) = hexchar (unat y mod 16)"
      and h3: "hexdigest xs = hexdigest ys"
      by (simp_all only: hexdigest_Cons list.inject)
    from hex_byte_inj [OF h1 h2] Cons.IH [OF h3] tl show ?thesis by simp
  qed
qed

lemma length_pad_digest: "length (pad_digest n bs) = n"
  by (simp add: pad_digest_def)

lemma set_item_fresh: "map_of d k = None \<Longrightarrow> set_item d k v = d @ [(k, v)]"
  unfolding set_item_def
  by (induction d) (auto split: if_splits)

lemma keys_distinct:
  "k_key \<noteq> k_from" "k_key \<noteq> k_to" "k_from \<noteq> k_to"
  "k_from \<noteq> k_key" "k_to \<noteq> k_key" "k_to \<noteq> k_from"
  by (simp_all add: k_key_def k_from_def k_to_def u_def)

lemma write_edge_key_values:
  assumes "map_of d k_key = None" "map_of d k_from = Some vf" "map_of d k_to = Some vt"
  shows "write_edge_key H d =
     (case encode_attr vf of Inl e \<Rightarrow> Inl e
      | Inr bf \<Rightarrow> (case encode_attr vt of Inl e \<Rightarrow> Inl e
         | Inr bt \<Rightarrow> Inr (set_item d k_key (JStr (hexdigest (H 8 (bf @ bt)))))))"
  using assms by (simp add: write_edge_key_def has_key_def get_item_def split: sum.splits)

text \<open>
  C10. A document that already has a \<open>_key\<close>, or that lacks \<open>_from\<close> or \<open>_to\<close>, is
  returned as it came: the same fields, in the same order, with the same values.
\<close>

theorem write_edge_key_unchanged:
  "has_key d k_key \<or> \<not> has_key d k_from \<or> \<not> has_key d k_to \<Longrightarrow>
   write_edge_key H d = Inr d"
  by (auto simp: write_edge_key_def)

theorem write_edge_key_unchanged_witness:
  "write_edge_key pad_digest
     [(k_from, JStr (u ''a'')), (k_to, JStr (u ''b'')), (k_key, JStr (u ''k''))]
     = Inr [(k_from, JStr (u ''a'')), (k_to, JStr (u ''b'')), (k_key, JStr (u ''k''))]
   \<and> write_edge_key pad_digest [(k_from, JStr (u ''a''))] = Inr [(k_from, JStr (u ''a''))]
   \<and> write_edge_key pad_digest [(k_to, JStr (u ''b''))] = Inr [(k_to, JStr (u ''b''))]"
  using
    write_edge_key_unchanged
      [of "[(k_from, JStr (u ''a'')), (k_to, JStr (u ''b'')), (k_key, JStr (u ''k''))]" pad_digest]
    write_edge_key_unchanged [of "[(k_from, JStr (u ''a''))]" pad_digest]
    write_edge_key_unchanged [of "[(k_to, JStr (u ''b''))]" pad_digest]
  by (simp add: has_key_def keys_distinct)

text \<open>
  C1, as stated, fails: a document with \<open>_from\<close> and \<open>_to\<close> and no \<open>_key\<close> whose
  \<open>_from\<close> is the string of the lone surrogate U+D800 (which \<open>json.loads\<close> produces from
  the escape \<open>\ud800\<close>) makes \<open>.encode()\<close> raise, and no key is assigned.
\<close>

theorem write_edge_key_surrogate_counterexample:
  "write_edge_key pad_digest [(k_from, JStr [0xD800]), (k_to, JStr (u ''b''))]
     = Inl UnicodeEncodeError"
  by (simp add: write_edge_key_def has_key_def get_item_def keys_distinct utf8_char_def)

text \<open>
  C1, amended. For a document with no \<open>_key\<close> whose \<open>_from\<close> and \<open>_to\<close> are strings that
  encode as UTF-8, the result is the document with \<open>_key\<close> appended, set to the hex
  encoding of the digest of the bytes of \<open>_from\<close> followed by the bytes of \<open>_to\<close>; the
  digest being 8 bytes long, the key is 16 hex characters. The key is an expression in
  the two strings only.
\<close>

theorem write_edge_key_edge:
  assumes "\<not> has_key d k_key"
      and "map_of d k_from = Some (JStr f)" and "map_of d k_to = Some (JStr t)"
      and "str_encode f = Inr bf" and "str_encode t = Inr bt"
      and "length (H 8 (bf @ bt)) = 8"
  shows "write_edge_key H d = Inr (d @ [(k_key, JStr (hexdigest (H 8 (bf @ bt))))])
       \<and> length (hexdigest (H 8 (bf @ bt))) = 16"
  using assms
  by (simp add: write_edge_key_values has_key_def set_item_fresh length_hexdigest)

theorem write_edge_key_edge_witness:
  "write_edge_key pad_digest [(k_from, JStr (u ''abcd'')), (k_to, JStr (u ''efgh''))]
     = Inr [(k_from, JStr (u ''abcd'')), (k_to, JStr (u ''efgh'')),
            (k_key, JStr (u ''6162636465666768''))]"
proof -
  have e1: "str_encode (u ''abcd'') = Inr [0x61, 0x62, 0x63, 0x64]"
    by (simp add: u_def utf8_char_def)
  have e2: "str_encode (u ''efgh'') = Inr [0x65, 0x66, 0x67, 0x68]"
    by (simp add: u_def utf8_char_def)
  have pd: "pad_digest 8 [0x61, 0x62, 0x63, 0x64, 0x65, 0x66, 0x67, 0x68]
              = [0x61, 0x62, 0x63, 0x64, 0x65, 0x66, 0x67, 0x68]"
    by (simp add: pad_digest_def)
  have hx: "hexdigest [0x61, 0x62, 0x63, 0x64, 0x65, 0x66, 0x67, 0x68]
              = u ''6162636465666768''"
    by (simp add: hexdigest_def hexchar_def u_def)
  show ?thesis
    using write_edge_key_edge
      [of "[(k_from, JStr (u ''abcd'')), (k_to, JStr (u ''efgh''))]" "u ''abcd''" "u ''efgh''"
          "[0x61, 0x62, 0x63, 0x64]" "[0x65, 0x66, 0x67, 0x68]" pad_digest]
    by (simp add: has_key_def keys_distinct e1 e2 pd hx)
qed

section \<open>Properties of \<open>bulk_import\<close>\<close>


lemma edge_key_same_concatenation:
  assumes "\<not> has_key da k_key" and "\<not> has_key db k_key"
      and "map_of da k_from = Some (JStr f)" and "map_of da k_to = Some (JStr t)"
      and "map_of db k_from = Some (JStr f')" and "map_of db k_to = Some (JStr t')"
      and "str_encode f = Inr bf" and "str_encode t = Inr bt"
      and "str_encode f' = Inr bf'" and "str_encode t' = Inr bt'"
      and "bf @ bt = bf' @ bt'"
  shows "write_edge_key H da = Inr (da @ [(k_key, JStr (hexdigest (H 8 (bf @ bt))))])"
    and "write_edge_key H db = Inr (db @ [(k_key, JStr (hexdigest (H 8 (bf @ bt))))])"
proof -
  have n1: "map_of da k_key = None" and n2: "map_of db k_key = None"
    using assms(1,2) by (simp_all add: has_key_def)
  show "write_edge_key H da = Inr (da @ [(k_key, JStr (hexdigest (H 8 (bf @ bt))))])"
    using assms(3,4,7,8) n1 by (simp add: write_edge_key_values set_item_fresh)
  show "write_edge_key H db = Inr (db @ [(k_key, JStr (hexdigest (H 8 (bf @ bt))))])"
    using assms(5,6,9,10) n2 by (simp add: write_edge_key_values set_item_fresh assms(11))
qed

lemma sample_short_encodings:
  "str_encode (u ''a'') = Inr [0x61]"
  "str_encode (u ''aa'') = Inr [0x61, 0x61]"
  by (simp_all add: u_def utf8_char_def)

text \<open>
  C9, as stated, fails: the documents with endpoints \<open>('a', 'aa')\<close> and \<open>('aa', 'a')\<close>
  have different ordered pairs, one the other with the endpoints exchanged, and get the
  same key, since both concatenations are \<open>'aaa'\<close>; this is so for every digest.
\<close>

theorem edge_key_order_counterexample:
  "(u ''a'', u ''aa'') \<noteq> (u ''aa'', u ''a'')
   \<and> write_edge_key pad_digest [(k_from, JStr (u ''a'')), (k_to, JStr (u ''aa''))]
     = Inr [(k_from, JStr (u ''a'')), (k_to, JStr (u ''aa'')),
            (k_key, JStr (hexdigest (pad_digest 8 [0x61, 0x61, 0x61])))]
   \<and> write_edge_key pad_digest [(k_from, JStr (u ''aa'')), (k_to, JStr (u ''a''))]
     = Inr [(k_from, JStr (u ''aa'')), (k_to, JStr (u ''a'')),
            (k_key, JStr (hexdigest (pad_digest 8 [0x61, 0x61, 0x61])))]"
proof -
  let ?da = "[(k_from, JStr (u ''a'')), (k_to, JStr (u ''aa''))]"
  let ?db = "[(k_from, JStr (u ''aa'')), (k_to, JStr (u ''a''))]"
  have h1: "\<not> has_key ?da k_key" and h2: "\<not> has_key ?db k_key"
    by (simp_all add: has_key_def keys_distinct)
  have h3: "map_of ?da k_from = Some (JStr (u ''a''))"
    and h4: "map_of ?da k_to = Some (JStr (u ''aa''))"
    and h5: "map_of ?db k_from = Some (JStr (u ''aa''))"
    and h6: "map_of ?db k_to = Some (JStr (u ''a''))"
    by (simp_all add: keys_distinct)
  have c: "[0x61] @ [0x61, 0x61] = [0x61, 0x61] @ [0x61 :: byte]" by simp
  note k = edge_key_same_concatenation
    [OF h1 h2 h3 h4 h5 h6 sample_short_encodings(1,2) sample_short_encodings(2,1) c,
     of pad_digest]
  have "u ''a'' \<noteq> u ''aa''" by (simp add: u_def)
  with k show ?thesis by simp
qed

text \<open>
  C9, amended. Two documents without a \<open>_key\<close> that carry the same \<open>_from\<close> and the
  same \<open>_to\<close> get the same outcome: the same exception, or the same key. When the
  endpoints of both are strings that encode, each key is the hex digest of the bytes of
  \<open>_from\<close> followed by those of \<open>_to\<close>; the two keys are equal exactly when the digests
  of the two concatenations are, and so whenever the concatenations are equal.
\<close>

theorem edge_key_deterministic:
  assumes "\<not> has_key da k_key" and "\<not> has_key db k_key"
      and "map_of da k_from = Some vf" and "map_of da k_to = Some vt"
  shows "(map_of db k_from = Some vf \<and> map_of db k_to = Some vt \<longrightarrow>
            (\<exists>e. write_edge_key H da = Inl e \<and> write_edge_key H db = Inl e) \<or>
            (\<exists>key. write_edge_key H da = Inr (da @ [(k_key, JStr key)]) \<and>
                   write_edge_key H db = Inr (db @ [(k_key, JStr key)])))
       \<and> (vf = JStr f \<and> vt = JStr t \<and> str_encode f = Inr bf \<and> str_encode t = Inr bt \<and>
              map_of db k_from = Some (JStr f') \<and> map_of db k_to = Some (JStr t') \<and>
              str_encode f' = Inr bf' \<and> str_encode t' = Inr bt' \<longrightarrow>
            write_edge_key H da = Inr (da @ [(k_key, JStr (hexdigest (H 8 (bf @ bt))))]) \<and>
            write_edge_key H db = Inr (db @ [(k_key, JStr (hexdigest (H 8 (bf' @ bt'))))]) \<and>
            (hexdigest (H 8 (bf @ bt)) = hexdigest (H 8 (bf' @ bt')) \<longleftrightarrow>
               H 8 (bf @ bt) = H 8 (bf' @ bt')) \<and>
            (bf @ bt = bf' @ bt' \<longrightarrow>
               hexdigest (H 8 (bf @ bt)) = hexdigest (H 8 (bf' @ bt'))))"
proof (intro conjI impI)
  assume a: "map_of db k_from = Some vf \<and> map_of db k_to = Some vt"
  have n1: "map_of da k_key = None" and n2: "map_of db k_key = None"
    using assms(1,2) by (simp_all add: has_key_def)
  show "(\<exists>e. write_edge_key H da = Inl e \<and> write_edge_key H db = Inl e) \<or>
        (\<exists>key. write_edge_key H da = Inr (da @ [(k_key, JStr key)]) \<and>
               write_edge_key H db = Inr (db @ [(k_key, JStr key)]))"
    using a assms(3,4) n1 n2
    by (simp add: write_edge_key_values set_item_fresh split: sum.splits)
next
  assume a: "vf = JStr f \<and> vt = JStr t \<and> str_encode f = Inr bf \<and> str_encode t = Inr bt \<and>
              map_of db k_from = Some (JStr f') \<and> map_of db k_to = Some (JStr t') \<and>
              str_encode f' = Inr bf' \<and> str_encode t' = Inr bt'"
  have n1: "map_of da k_key = None" and n2: "map_of db k_key = None"
    using assms(1,2) by (simp_all add: has_key_def)
  show "write_edge_key H da = Inr (da @ [(k_key, JStr (hexdigest (H 8 (bf @ bt))))])"
    using a assms(3,4) n1 by (simp add: write_edge_key_values set_item_fresh)
  show "write_edge_key H db = Inr (db @ [(k_key, JStr (hexdigest (H 8 (bf' @ bt'))))])"
    using a n2 by (simp add: write_edge_key_values set_item_fresh)
  show "hexdigest (H 8 (bf @ bt)) = hexdigest (H 8 (bf' @ bt')) \<longleftrightarrow>
          H 8 (bf @ bt) = H 8 (bf' @ bt')"
    by (auto dest: hexdigest_inj)
  show "hexdigest (H 8 (bf @ bt)) = hexdigest (H 8 (bf' @ bt'))" if "bf @ bt = bf' @ bt'"
    using that by simp
qed

lemma os_remove_absent: "files (snd (os_remove name w)) name = None"
  by (simp add: os_remove_def)

text \<open>
  C2. Once the validator is built, \<open>bulk_import\<close> creates the temporary file, and
  whatever the lines of the request, the validator and the loader do, and whether the
  call returns or raises, no file is left under that name when the call completes.
\<close>

theorem bulk_import_removes_temp_file:
  assumes "map_of query_params (u ''collection'') = Some c"
      and "get_collection E c = Inr schema_file"
      and "get_schema_validator E schema_file (u ''/schema'') = Inr validator"
  shows "fst (named_temporary_file E w) = mktemp E w
       \<and> files (snd (named_temporary_file E w)) (mktemp E w) = Some []
       \<and> files (snd (bulk_import E query_params stream w)) (mktemp E w) = None"
proof -
  obtain resp w2 where tb:
    "try_block E validator (mktemp E w) query_params stream
       (w\<lparr>files := (files w)(mktemp E w \<mapsto> [])\<rparr>) = (resp, w2)"
    by (cases "try_block E validator (mktemp E w) query_params stream
       (w\<lparr>files := (files w)(mktemp E w \<mapsto> [])\<rparr>)")
  have "snd (bulk_import E query_params stream w) = snd (os_remove (mktemp E w) w2)"
    using assms tb
    by (simp add: bulk_import_def named_temporary_file_def split: prod.splits sum.splits)
  then show ?thesis
    by (simp add: os_remove_absent named_temporary_file_def)
qed




lemma sample_outcomes:
  "fst (bulk_import sample_env [(u ''collection'', u ''c'')] [[5]] w0) = Inr (JInt 1)"
  "fst (bulk_import sample_env [(u ''collection'', u ''c'')] [[5], []] w0) = Inl JSONDecodeError"
  "fst (bulk_import sample_env [(u ''collection'', u ''c'')] [[5], [0]] w0) = Inl ValidationError"
  "fst (bulk_import sample_env [(u ''collection'', u ''c'')] [] w0) = Inl (RuntimeError (u ''nothing to import''))"
  by (simp_all add: bulk_import_def sample_env_def w0_def named_temporary_file_def try_block_def
        stamp_line_def sample_loads_def sample_validator_def sample_loader_def fd_write_def
        os_remove_def write_edge_key_def has_key_def u_def k_from_def k_key_def k_to_def)

theorem bulk_import_removes_temp_file_witness:
  "files (snd (bulk_import sample_env [(u ''collection'', u ''c'')] [[5], [0]] w0)) (u ''tmp0'') = None
   \<and> fst (bulk_import sample_env [(u ''collection'', u ''c'')] [[5], [0]] w0) = Inl ValidationError"
  using bulk_import_removes_temp_file
    [of "[(u ''collection'', u ''c'')]" "u ''c''" sample_env "u ''c'' @ u ''.yaml''"
        sample_validator w0 "[[5], [0]]"]
    sample_outcomes(3)
  by (simp add: sample_env_def)

lemma updated_at_distinct:
  "k_updated_at \<noteq> k_from" "k_updated_at \<noteq> k_to" "k_updated_at \<noteq> k_key"
  "k_from \<noteq> k_updated_at" "k_to \<noteq> k_updated_at" "k_key \<noteq> k_updated_at"
  by (simp_all add: k_updated_at_def k_key_def k_from_def k_to_def u_def)

lemma sample_encodings:
  "str_encode (u ''abcd'') = Inr [0x61, 0x62, 0x63, 0x64]"
  "str_encode (u ''efgh'') = Inr [0x65, 0x66, 0x67, 0x68]"
  by (simp_all add: u_def utf8_char_def)

lemma sample_digests:
  "hexdigest (pad_digest 8 [0x61, 0x62, 0x63, 0x64, 0x65, 0x66, 0x67, 0x68]) = u ''6162636465666768''"
  "hexdigest (pad_digest 8 [0x65, 0x66, 0x67, 0x68, 0x61, 0x62, 0x63, 0x64]) = u ''6566676861626364''"
  by (simp_all add: pad_digest_def hexdigest_def hexchar_def u_def)

theorem edge_key_deterministic_witness:
  "((\<exists>e. write_edge_key pad_digest [(k_from, JStr (u ''abcd'')), (k_to, JStr (u ''efgh''))] = Inl e
         \<and> write_edge_key pad_digest
              [(k_to, JStr (u ''efgh'')), (k_updated_at, JInt 1), (k_from, JStr (u ''abcd''))]
             = Inl e)
     \<or> (\<exists>key. write_edge_key pad_digest [(k_from, JStr (u ''abcd'')), (k_to, JStr (u ''efgh''))]
             = Inr ([(k_from, JStr (u ''abcd'')), (k_to, JStr (u ''efgh''))] @ [(k_key, JStr key)])
         \<and> write_edge_key pad_digest
              [(k_to, JStr (u ''efgh'')), (k_updated_at, JInt 1), (k_from, JStr (u ''abcd''))]
             = Inr ([(k_to, JStr (u ''efgh'')), (k_updated_at, JInt 1), (k_from, JStr (u ''abcd''))]
                    @ [(k_key, JStr key)])))
   \<and> write_edge_key pad_digest [(k_from, JStr (u ''abcd'')), (k_to, JStr (u ''efgh''))]
     = Inr [(k_from, JStr (u ''abcd'')), (k_to, JStr (u ''efgh'')),
            (k_key, JStr (u ''6162636465666768''))]
   \<and> write_edge_key pad_digest [(k_from, JStr (u ''efgh'')), (k_to, JStr (u ''abcd''))]
     = Inr [(k_from, JStr (u ''efgh'')), (k_to, JStr (u ''abcd'')),
            (k_key, JStr (u ''6566676861626364''))]
   \<and> u ''6162636465666768'' \<noteq> u ''6566676861626364''
   \<and> hexdigest (pad_digest 8 ([0x61] @ [0x61, 0x61]))
     = hexdigest (pad_digest 8 ([0x61, 0x61] @ [0x61]))"
proof -
  let ?da = "[(k_from, JStr (u ''abcd'')), (k_to, JStr (u ''efgh''))]"
  let ?db = "[(k_from, JStr (u ''efgh'')), (k_to, JStr (u ''abcd''))]"
  let ?dc = "[(k_to, JStr (u ''efgh'')), (k_updated_at, JInt 1), (k_from, JStr (u ''abcd''))]"
  let ?dd = "[(k_from, JStr (u ''a'')), (k_to, JStr (u ''aa''))]"
  let ?de = "[(k_from, JStr (u ''aa'')), (k_to, JStr (u ''a''))]"
  have h1: "\<not> has_key ?da k_key" and h2: "\<not> has_key ?db k_key"
    and h2c: "\<not> has_key ?dc k_key"
    and h1d: "\<not> has_key ?dd k_key" and h2e: "\<not> has_key ?de k_key"
    by (simp_all add: has_key_def keys_distinct updated_at_distinct)
  have h3: "map_of ?da k_from = Some (JStr (u ''abcd''))"
    and h4: "map_of ?da k_to = Some (JStr (u ''efgh''))"
    and h3d: "map_of ?dd k_from = Some (JStr (u ''a''))"
    and h4d: "map_of ?dd k_to = Some (JStr (u ''aa''))"
    by (simp_all add: keys_distinct)
  have hc: "map_of ?dc k_from = Some (JStr (u ''abcd'')) \<and> map_of ?dc k_to = Some (JStr (u ''efgh''))"
    by (simp add: keys_distinct updated_at_distinct)
  have h5: "JStr (u ''abcd'') = JStr (u ''abcd'') \<and> JStr (u ''efgh'') = JStr (u ''efgh'') \<and>
      str_encode (u ''abcd'') = Inr [0x61, 0x62, 0x63, 0x64] \<and>
      str_encode (u ''efgh'') = Inr [0x65, 0x66, 0x67, 0x68] \<and>
      map_of ?db k_from = Some (JStr (u ''efgh'')) \<and> map_of ?db k_to = Some (JStr (u ''abcd'')) \<and>
      str_encode (u ''efgh'') = Inr [0x65, 0x66, 0x67, 0x68] \<and>
      str_encode (u ''abcd'') = Inr [0x61, 0x62, 0x63, 0x64]"
    by (simp add: keys_distinct sample_encodings)
  have h5e: "JStr (u ''a'') = JStr (u ''a'') \<and> JStr (u ''aa'') = JStr (u ''aa'') \<and>
      str_encode (u ''a'') = Inr [0x61] \<and> str_encode (u ''aa'') = Inr [0x61, 0x61] \<and>
      map_of ?de k_from = Some (JStr (u ''aa'')) \<and> map_of ?de k_to = Some (JStr (u ''a'')) \<and>
      str_encode (u ''aa'') = Inr [0x61, 0x61] \<and> str_encode (u ''a'') = Inr [0x61]"
    by (simp add: keys_distinct sample_short_encodings)
  have same: "(\<exists>e. write_edge_key pad_digest ?da = Inl e \<and> write_edge_key pad_digest ?dc = Inl e)
     \<or> (\<exists>key. write_edge_key pad_digest ?da = Inr (?da @ [(k_key, JStr key)])
             \<and> write_edge_key pad_digest ?dc = Inr (?dc @ [(k_key, JStr key)]))"
    by (rule edge_key_deterministic
      [where H = pad_digest, OF h1 h2c h3 h4, THEN conjunct1, rule_format, OF hc])
  from edge_key_deterministic
      [where H = pad_digest and f = "u ''abcd''" and t = "u ''efgh''"
         and bf = "[0x61, 0x62, 0x63, 0x64]" and bt = "[0x65, 0x66, 0x67, 0x68]"
         and f' = "u ''efgh''" and t' = "u ''abcd''"
         and bf' = "[0x65, 0x66, 0x67, 0x68]" and bt' = "[0x61, 0x62, 0x63, 0x64]",
       OF h1 h2 h3 h4, THEN conjunct2, rule_format, OF h5]
  have swapped: "write_edge_key pad_digest ?da = Inr (?da @ [(k_key, JStr (u ''6162636465666768''))])"
    "write_edge_key pad_digest ?db = Inr (?db @ [(k_key, JStr (u ''6566676861626364''))])"
    by (simp_all add: sample_digests)
  have c: "[0x61] @ [0x61, 0x61] = [0x61, 0x61] @ [0x61 :: byte]" by simp
  from edge_key_deterministic
      [where H = pad_digest and f = "u ''a''" and t = "u ''aa''"
         and bf = "[0x61]" and bt = "[0x61, 0x61]"
         and f' = "u ''aa''" and t' = "u ''a''"
         and bf' = "[0x61, 0x61]" and bt' = "[0x61]",
       OF h1d h2e h3d h4d, THEN conjunct2, rule_format, OF h5e]
  have collide: "hexdigest (pad_digest 8 ([0x61] @ [0x61, 0x61]))
     = hexdigest (pad_digest 8 ([0x61, 0x61] @ [0x61]))"
    using c by blast
  have "u ''6162636465666768'' \<noteq> u ''6566676861626364''"
    by (simp add: u_def)
  with same swapped collide show ?thesis
    by (intro conjI) simp_all
qed




section \<open>Properties of \<open>load_data\<close>\<close>

lemma report_fold:
  "foldl (\<lambda>st e. (True, say (u ''error'') (u ''Validation error: '' @ err_message e) (snd st)))
     (b, fx) xs
   = (b \<or> xs \<noteq> [],
      fx\<lparr>console := console fx
            @ map (\<lambda>e. note_line (u ''error'') (u ''Validation error: '' @ err_message e)) xs\<rparr>)"
  by (induction xs arbitrary: b fx) (simp_all add: say_def)

lemma sort_key_Nil_iff: "sort_key f xs = [] \<longleftrightarrow> xs = []"
  using length_sort [of f xs] by (metis length_0_conv)

lemma report_errors_eq:
  "report_errors (iter_errors d) (b, fx)
     = (b \<or> iter_errors d \<noteq> [], fx\<lparr>console := console fx @ error_lines iter_errors d\<rparr>)"
  by (simp add: report_errors_def report_fold error_lines_def sort_key_Nil_iff)

lemma error_lines_valid: "iter_errors d = [] \<Longrightarrow> error_lines iter_errors d = []"
  by (simp add: error_lines_def)

lemma validate_loop_reports:
  assumes "\<forall>d\<in>set ds. iter_errors d = [] \<longrightarrow> (\<exists>k. key_from_ns d = Inr k)"
  shows "\<exists>ts'. validate_loop iter_errors ds b ts fx
           = (Inr (b \<or> (\<exists>d\<in>set ds. iter_errors d \<noteq> []), ts'),
              fx\<lparr>console := console fx @ concat (map (error_lines iter_errors) ds)\<rparr>)"
  using assms
proof (induction ds arbitrary: b ts fx)
  case Nil
  then show ?case by simp
next
  case (Cons d ds)
  show ?case
  proof (cases "iter_errors d = []")
    case True
    with Cons.prems obtain k where k: "key_from_ns d = Inr k" by auto
    from Cons.prems have rest: "\<forall>d\<in>set ds. iter_errors d = [] \<longrightarrow> (\<exists>k. key_from_ns d = Inr k)"
      by simp
    from Cons.IH [OF rest, of b "ts @ [k]" fx] True k show ?thesis
      by (simp add: error_lines_valid)
  next
    case False
    from Cons.prems have rest: "\<forall>d\<in>set ds. iter_errors d = [] \<longrightarrow> (\<exists>k. key_from_ns d = Inr k)"
      by simp
    from Cons.IH [OF rest, of True ts "fx\<lparr>console := console fx @ error_lines iter_errors d\<rparr>"] False
    show ?thesis
      by (simp add: report_errors_eq)
  qed
qed

lemma say_frame [simp]:
  "puts (say t m fx) = puts fx" "save_docs_calls (say t m fx) = save_docs_calls fx"
  "console (say t m fx) = console fx @ [note_line t m]"
  by (simp_all add: say_def)

lemma validate_and_save_invalid:
  assumes "\<exists>d\<in>set ds. iter_errors d \<noteq> []"
      and "\<forall>d\<in>set ds. iter_errors d = [] \<longrightarrow> (\<exists>k. key_from_ns d = Inr k)"
  shows "fst (validate_and_save E iter_errors ds dry_run fx) = Inr False"
    and "save_docs_calls (snd (validate_and_save E iter_errors ds dry_run fx)) = save_docs_calls fx"
    and "puts (snd (validate_and_save E iter_errors ds dry_run fx)) = puts fx"
    and "console (snd (validate_and_save E iter_errors ds dry_run fx))
           = console fx @ concat (map (error_lines iter_errors) ds)
             @ [note_line (u ''error'') (u ''Data did not validate''),
                note_line (u ''error'')
                  (if dry_run then u ''Dry run completed with errors''
                   else u ''Due to errors, data will not be loaded'')]"
proof -
  from validate_loop_reports [OF assms(2), of False "[]" fx] assms(1)
  obtain ts' where
    "validate_loop iter_errors ds False [] fx
       = (Inr (True, ts'), fx\<lparr>console := console fx @ concat (map (error_lines iter_errors) ds)\<rparr>)"
    by auto
  then show
    "fst (validate_and_save E iter_errors ds dry_run fx) = Inr False"
    "save_docs_calls (snd (validate_and_save E iter_errors ds dry_run fx)) = save_docs_calls fx"
    "puts (snd (validate_and_save E iter_errors ds dry_run fx)) = puts fx"
    "console (snd (validate_and_save E iter_errors ds dry_run fx))
           = console fx @ concat (map (error_lines iter_errors) ds)
             @ [note_line (u ''error'') (u ''Data did not validate''),
                note_line (u ''error'')
                  (if dry_run then u ''Dry run completed with errors''
                   else u ''Due to errors, data will not be loaded'')]"
    by (simp_all add: validate_and_save_def Let_def)
qed

text \<open>
  C3. When the data file holds a list in which some document fails validation (and the
  schema is one under which a valid document is an object with an \<open>ns\<close> field),
  \<open>load_data\<close> goes through the whole list, prints for every document each of its
  errors, sorted, then the two closing lines, and returns \<open>False\<close>; \<open>save_docs\<close>
  is not invoked and no request is sent, whatever \<open>dry_run\<close> is.
\<close>

theorem load_data_invalid_never_saves:
  assumes "map_of (config E) (u ''API_URL'') = Some api_url"
      and "schema_validator E
             (path_join (get_dataset_schema_dir E) (u ''data_sources_nodes.yaml''))
           = Inr iter_errors"
      and "open_json E
             (path_join
                (case map_of (config E) (u ''ROOT_DATA_PATH'') of
                   Some d \<Rightarrow> d | None \<Rightarrow> get_relative_dir E (u ''data''))
                (u ''data_sources.json''))
           = Inr (JList docs)"
      and "\<exists>d\<in>set docs. iter_errors d \<noteq> []"
      and "\<forall>d\<in>set docs. iter_errors d = [] \<longrightarrow>
             (\<exists>fields v. d = JObj fields \<and> map_of fields (u ''ns'') = Some v)"
  shows "fst (load_data E dry_run fx) = Inr False
       \<and> save_docs_calls (snd (load_data E dry_run fx)) = save_docs_calls fx
       \<and> puts (snd (load_data E dry_run fx)) = puts fx
       \<and> (\<exists>pre. console (snd (load_data E dry_run fx))
             = console fx @ pre
               @ concat (map (\<lambda>d. map (\<lambda>e. note_line (u ''error'')
                                           (u ''Validation error: '' @ err_message e))
                                  (sort_key err_str (iter_errors d))) docs)
               @ [note_line (u ''error'') (u ''Data did not validate''),
                  note_line (u ''error'')
                    (if dry_run then u ''Dry run completed with errors''
                     else u ''Due to errors, data will not be loaded'')])"
proof -
  have ns: "\<forall>d\<in>set docs. iter_errors d = [] \<longrightarrow> (\<exists>k. key_from_ns d = Inr k)"
  proof (intro ballI impI)
    fix d assume "d \<in> set docs" "iter_errors d = []"
    with assms(5) obtain fields v where "d = JObj fields" "map_of fields (u ''ns'') = Some v"
      by blast
    then show "\<exists>k. key_from_ns d = Inr k"
      by (simp add: get_item_def)
  qed
  note vs = validate_and_save_invalid [OF assms(4) ns]
  define data_dir where
    "data_dir = (case map_of (config E) (u ''ROOT_DATA_PATH'') of
                   Some d \<Rightarrow> d | None \<Rightarrow> get_relative_dir E (u ''data''))"
  define fx4 where
    "fx4 = say (u ''info'') (u ''     data_dir: '' @ [34] @ data_dir @ [34])
            (say (u ''info'')
               (case map_of (config E) (u ''ROOT_DATA_PATH'') of
                  Some _ \<Rightarrow> u ''     (Taking data dir from environment variable '' @ [34]
                            @ u ''RES_ROOT_DATA_PATH'' @ [34] @ u '')''
                | None \<Rightarrow> u ''     (Taking data dir from default)'')
               (say (u ''info'') (u ''     dry run: '' @ str_bool dry_run)
                  (say (u ''info'') (u ''     API_URL: '' @ api_url)
                     (say (u ''info'') (u ''Parameters:'')
                        (say (u ''info'') (u ''Loading data'') fx)))))"
  define pre where
    "pre = [note_line (u ''info'') (u ''Loading data''),
            note_line (u ''info'') (u ''Parameters:''),
            note_line (u ''info'') (u ''     API_URL: '' @ api_url),
            note_line (u ''info'') (u ''     dry run: '' @ str_bool dry_run),
            note_line (u ''info'')
               (case map_of (config E) (u ''ROOT_DATA_PATH'') of
                  Some _ \<Rightarrow> u ''     (Taking data dir from environment variable '' @ [34]
                            @ u ''RES_ROOT_DATA_PATH'' @ [34] @ u '')''
                | None \<Rightarrow> u ''     (Taking data dir from default)''),
            note_line (u ''info'') (u ''     data_dir: '' @ [34] @ data_dir @ [34])]"
  have ld: "load_data E dry_run fx = validate_and_save E iter_errors docs dry_run fx4"
    using assms(1,2,3)
    by (cases "map_of (config E) (u ''ROOT_DATA_PATH'')")
       (simp_all add: load_data_def get_config_or_fail_def get_config_def Let_def
          fx4_def data_dir_def)
  have f4: "console fx4 = console fx @ pre" "puts fx4 = puts fx"
            "save_docs_calls fx4 = save_docs_calls fx"
    by (simp_all add: fx4_def pre_def)
  have em: "(\<lambda>d. map (\<lambda>e. note_line (u ''error'') (u ''Validation error: '' @ err_message e))
                                  (sort_key err_str (iter_errors d))) = error_lines iter_errors"
    by (simp add: error_lines_def fun_eq_iff)
  show ?thesis
    unfolding em ld
    using vs [of E dry_run fx4] f4
    by (intro conjI exI [of _ pre]) simp_all
qed

lemma sample_sources_errors:
  "sample_iter_errors (JObj [(u ''ns'', JStr (u ''go''))]) = []"
  "sample_iter_errors (JObj []) \<noteq> []"
  "sample_iter_errors JNull \<noteq> []"
  by (simp_all add: sample_iter_errors_def has_key_def)

theorem load_data_invalid_never_saves_witness:
  "fst (load_data sample_importer_env False fx0) = Inr False
   \<and> save_docs_calls (snd (load_data sample_importer_env False fx0)) = []
   \<and> puts (snd (load_data sample_importer_env False fx0)) = []"
proof -
  have h1: "map_of (config sample_importer_env) (u ''API_URL'') = Some (u ''http://re'')"
    by (simp add: sample_importer_env_def)
  have h2: "schema_validator sample_importer_env
             (path_join (get_dataset_schema_dir sample_importer_env) (u ''data_sources_nodes.yaml''))
           = Inr sample_iter_errors"
    by (simp add: sample_importer_env_def)
  have h3: "open_json sample_importer_env
             (path_join
                (case map_of (config sample_importer_env) (u ''ROOT_DATA_PATH'') of
                   Some d \<Rightarrow> d | None \<Rightarrow> get_relative_dir sample_importer_env (u ''data''))
                (u ''data_sources.json''))
           = Inr (JList sample_sources)"
    by (simp add: sample_importer_env_def)
  have h4: "\<exists>d\<in>set sample_sources. sample_iter_errors d \<noteq> []"
    using sample_sources_errors by (simp add: sample_sources_def)
  have h5: "\<forall>d\<in>set sample_sources. sample_iter_errors d = [] \<longrightarrow>
             (\<exists>fields v. d = JObj fields \<and> map_of fields (u ''ns'') = Some v)"
    using sample_sources_errors by (simp add: sample_sources_def)
  from load_data_invalid_never_saves [OF h1 h2 h3 h4 h5, of False fx0]
  show ?thesis by (simp add: fx0_def)
qed

section \<open>Properties of the network data parser\<close>

lemma check_row_None: "check_row d n cols = None \<longleftrightarrow> row_ok d cols"
  by (simp add: check_row_def row_ok_def)

lemma scan_rows_ok:
  "\<forall>cols\<in>set rs. row_ok d cols \<Longrightarrow>
   scan_rows d n rs = (Inr (zip [n..<n + length rs] rs), [n..<n + length rs])"
proof (induction rs arbitrary: n)
  case Nil
  then show ?case by simp
next
  case (Cons c rs)
  then have c: "check_row d n c = None" and rest: "\<forall>cols\<in>set rs. row_ok d cols"
    by (simp_all add: check_row_None)
  have u: "[n..<n + length (c # rs)] = n # [Suc n..<Suc n + length rs]"
    by (subst upt_rec) simp
  show ?case
    unfolding u using Cons.IH [OF rest, of "Suc n"] c by simp
qed

lemma scan_rows_fail:
  "\<forall>cols\<in>set rs. row_ok d cols \<Longrightarrow> check_row d (n + length rs) bad = Some e \<Longrightarrow>
   scan_rows d n (rs @ bad # rest) = (Inl e, [n..<Suc (n + length rs)])"
proof (induction rs arbitrary: n)
  case Nil
  then show ?case by simp
next
  case (Cons c rs)
  then have c: "check_row d n c = None" and rest: "\<forall>cols\<in>set rs. row_ok d cols"
    and b: "check_row d (Suc n + length rs) bad = Some e"
    by (simp_all add: check_row_None)
  have u: "[n..<Suc (n + length (c # rs))] = n # [Suc n..<Suc (Suc n + length rs)]"
    by (subst upt_rec) simp
  show ?case
    unfolding u using Cons.IH [OF rest b] c by simp
qed

lemma first_line_ge: "1 \<le> first_line t"
  by (cases "header t") (simp_all add: first_line_def)

lemma lines_before: "[1..<first_line t] @ [first_line t..<first_line t + k] = [1..<first_line t + k]"
  by (rule upt_add_eq_append [symmetric]) (rule first_line_ge)

lemma scan_file_ok:
  assumes "clean_file E root_dir d"
  shows "\<exists>rows. scan_file E root_dir d = (Inr rows, whole_file E root_dir d)
           \<and> length rows = length (data_rows (read_table E (path_join root_dir (d_path d))))"
proof -
  let ?t = "read_table E (path_join root_dir (d_path d))"
  let ?f = "first_line ?t"
  let ?rows = "zip [?f..<?f + length (data_rows ?t)] (data_rows ?t)"
  from assms have ok: "\<forall>cols\<in>set (data_rows ?t). row_ok d cols"
    by (simp add: clean_file_def)
  have sr: "scan_rows d ?f (data_rows ?t) = (Inr ?rows, [?f..<?f + length (data_rows ?t)])"
    by (rule scan_rows_ok [OF ok])
  have "scan_file E root_dir d = (Inr ?rows, whole_file E root_dir d)"
    unfolding scan_file_def whole_file_def Let_def sr prod.case lines_before ..
  moreover have "length ?rows = length (data_rows ?t)" by simp
  ultimately show ?thesis by blast
qed

lemma scan_file_fail:
  assumes "data_rows (read_table E (path_join root_dir (d_path d))) = rs @ bad # rest"
      and "\<forall>cols\<in>set rs. row_ok d cols"
      and "check_row d (first_line (read_table E (path_join root_dir (d_path d))) + length rs) bad = Some e"
  shows "scan_file E root_dir d
           = (Inl e, lines_upto d (first_line (read_table E (path_join root_dir (d_path d))) + length rs))"
proof -
  let ?t = "read_table E (path_join root_dir (d_path d))"
  let ?f = "first_line ?t"
  have sr: "scan_rows d ?f (rs @ bad # rest) = (Inl e, [?f..<Suc (?f + length rs)])"
    by (rule scan_rows_fail [OF assms(2,3)])
  have s: "Suc (?f + length rs) = ?f + Suc (length rs)" by simp
  show ?thesis
    unfolding scan_file_def lines_upto_def Let_def assms(1) sr prod.case s lines_before ..
qed

lemma scan_files_ok:
  "\<forall>d\<in>set ds. clean_file E root_dir d \<Longrightarrow>
   \<exists>rows. scan_files E root_dir ds = (Inr rows, concat (map (whole_file E root_dir) ds))
     \<and> length rows = (\<Sum>d\<leftarrow>ds. length (data_rows (read_table E (path_join root_dir (d_path d)))))"
proof (induction ds)
  case Nil
  then show ?case by simp
next
  case (Cons d ds)
  then obtain rows where r: "scan_files E root_dir ds = (Inr rows, concat (map (whole_file E root_dir) ds))"
    and lr: "length rows = (\<Sum>d\<leftarrow>ds. length (data_rows (read_table E (path_join root_dir (d_path d)))))"
    by auto
  from Cons.prems scan_file_ok [of E root_dir d]
  obtain rows0 where r0: "scan_file E root_dir d = (Inr rows0, whole_file E root_dir d)"
    and l0: "length rows0 = length (data_rows (read_table E (path_join root_dir (d_path d))))"
    by auto
  show ?case using r r0 lr l0 by simp
qed

lemma scan_files_fail:
  assumes "\<forall>d'\<in>set ds1. clean_file E root_dir d'"
      and "scan_file E root_dir d = (Inl e, seen)"
  shows "scan_files E root_dir (ds1 @ d # ds2)
           = (Inl e, concat (map (whole_file E root_dir) ds1) @ seen)"
  using assms(1)
proof (induction ds1)
  case Nil
  then show ?case using assms(2) by simp
next
  case (Cons d0 ds1)
  from Cons.prems scan_file_ok [of E root_dir d0]
  obtain rows0 where r0: "scan_file E root_dir d0 = (Inr rows0, whole_file E root_dir d0)"
    by auto
  from Cons have "scan_files E root_dir (ds1 @ d # ds2)
           = (Inl e, concat (map (whole_file E root_dir) ds1) @ seen)" by simp
  with r0 show ?case by simp
qed

lemma of_role_member: "of_role r m = ds1 @ d # ds2 \<Longrightarrow> d_role d = r"
proof -
  assume a: "of_role r m = ds1 @ d # ds2"
  have "d \<in> set (of_role r m)" unfolding a by simp
  then show ?thesis by (simp add: of_role_def)
qed

lemma loaders_fail:
  assumes "scan_files E root_dir (of_role r m) = (Inl e, seen)"
  shows "r = Edges \<longrightarrow> load_edges E R root_dir m = (Inl e, seen)"
    and "r = NodeMetadata \<longrightarrow> load_node_metadata E R root_dir m = (Inl e, seen)"
    and "r = Cluster \<longrightarrow> load_cluster_data E R root_dir m = (Inl e, seen)"
  using assms by (auto simp: load_edges_def load_node_metadata_def load_cluster_data_def)

lemma first_violation:
  assumes "of_role r m = ds1 @ d # ds2"
      and "\<forall>d'\<in>set ds1. clean_file E root_dir d'"
      and "data_rows (read_table E (path_join root_dir (d_path d))) = rs @ bad # rest"
      and "\<forall>cols\<in>set rs. row_ok d cols"
      and "n = first_line (read_table E (path_join root_dir (d_path d))) + length rs"
      and "check_row d n bad = Some e"
  shows "scan_files E root_dir (of_role r m)
           = (Inl e, concat (map (whole_file E root_dir) ds1) @ lines_upto d n)"
proof -
  have "scan_file E root_dir d = (Inl e, lines_upto d n)"
    unfolding assms(5) by (rule scan_file_fail [OF assms(3,4) assms(6) [unfolded assms(5)]])
  from scan_files_fail [OF assms(2) this] show ?thesis
    unfolding assms(1) .
qed

text \<open>
  C4. In a \<open>load_*\<close> call, let the files of the role before \<open>d\<close> be clean and let the
  first row of \<open>d\<close> that fails be at line \<open>n\<close>, with a column count other than the
  expected one. Then the call raises \<open>FormatError\<close> with
  \<open><filename> line <n>: expected <expected> cols, found <found>\<close>; it has read the
  earlier files and lines 1 to \<open>n\<close> of this one, no later line and no later file, and
  returns no result.
\<close>

theorem column_count_is_fail_fast:
  assumes "of_role r m = ds1 @ d # ds2"
      and "\<forall>d'\<in>set ds1. clean_file E root_dir d'"
      and "data_rows (read_table E (path_join root_dir (d_path d))) = rs @ bad # rest"
      and "\<forall>cols\<in>set rs. row_ok d cols"
      and "length bad \<noteq> expected_columns d"
      and "n = first_line (read_table E (path_join root_dir (d_path d))) + length rs"
      and "msg = d_path d @ u '' line '' @ str_nat n @ u '': expected ''
                   @ str_nat (expected_columns d) @ u '' cols, found '' @ str_nat (length bad)"
      and "seen = concat (map (whole_file E root_dir) ds1) @ lines_upto d n"
  shows "(r = Edges \<longrightarrow> load_edges E R root_dir m = (Inl (FormatError msg), seen))
       \<and> (r = NodeMetadata \<longrightarrow> load_node_metadata E R root_dir m = (Inl (FormatError msg), seen))
       \<and> (r = Cluster \<longrightarrow> load_cluster_data E R root_dir m = (Inl (FormatError msg), seen))"
proof -
  have c: "check_row d n bad = Some (FormatError msg)"
    using assms(5) by (simp add: check_row_def assms(7))
  have "scan_files E root_dir (of_role r m) = (Inl (FormatError msg), seen)"
    unfolding assms(8) by (rule first_violation [OF assms(1,2,3,4,6) c])
  from loaders_fail [OF this] show ?thesis by blast
qed

lemma invalid_words:
  "u '': invalid '' @ role_word Edges @ u '' type: '' = u '': invalid edge type: ''"
  "u '': invalid '' @ role_word NodeMetadata @ u '' type: '' = u '': invalid node type: ''"
  by (simp_all add: role_word_def u_def)

text \<open>
  C5. In the same situation, when the first failing row has the expected column count
  and a value in the type column that is outside the vocabulary, \<open>load_edges\<close> raises
  \<open>FormatError\<close> with \<open><filename> line <n>: invalid edge type: <value>\<close>, and
  \<open>load_node_metadata\<close> with \<open>invalid node type\<close>; \<open>n\<close> counts the header row.
\<close>

theorem invalid_type_is_reported:
  assumes "of_role r m = ds1 @ d # ds2"
      and "\<forall>d'\<in>set ds1. clean_file E root_dir d'"
      and "data_rows (read_table E (path_join root_dir (d_path d))) = rs @ bad # rest"
      and "\<forall>cols\<in>set rs. row_ok d cols"
      and "length bad = expected_columns d"
      and "type_column_index d = Some i" and "i < length bad"
      and "bad ! i \<notin> set (vocabulary d)"
      and "n = first_line (read_table E (path_join root_dir (d_path d))) + length rs"
      and "seen = concat (map (whole_file E root_dir) ds1) @ lines_upto d n"
  shows "(r = Edges \<longrightarrow> load_edges E R root_dir m
            = (Inl (FormatError (d_path d @ u '' line '' @ str_nat n
                                  @ u '': invalid edge type: '' @ bad ! i)), seen))
       \<and> (r = NodeMetadata \<longrightarrow> load_node_metadata E R root_dir m
            = (Inl (FormatError (d_path d @ u '' line '' @ str_nat n
                                  @ u '': invalid node type: '' @ bad ! i)), seen))"
proof -
  have role: "d_role d = r" by (rule of_role_member [OF assms(1)])
  have c: "check_row d n bad
             = Some (FormatError (d_path d @ u '' line '' @ str_nat n
                       @ (u '': invalid '' @ role_word r @ u '' type: '') @ bad ! i))"
    using assms(5,6,7,8) by (simp add: check_row_def type_ok_def type_value_def role)
  have s: "scan_files E root_dir (of_role r m)
             = (Inl (FormatError (d_path d @ u '' line '' @ str_nat n
                       @ (u '': invalid '' @ role_word r @ u '' type: '') @ bad ! i)), seen)"
    unfolding assms(10) by (rule first_violation [OF assms(1,2,3,4,9) c])
  show ?thesis
  proof (intro conjI impI)
    assume r: "r = Edges"
    from loaders_fail(1) [OF s, of R] r show "load_edges E R root_dir m
            = (Inl (FormatError (d_path d @ u '' line '' @ str_nat n
                                  @ u '': invalid edge type: '' @ bad ! i)), seen)"
      by (simp only: invalid_words)
  next
    assume r: "r = NodeMetadata"
    from loaders_fail(2) [OF s, of R] r show "load_node_metadata E R root_dir m
            = (Inl (FormatError (d_path d @ u '' line '' @ str_nat n
                                  @ u '': invalid node type: '' @ bad ! i)), seen)"
      by (simp only: invalid_words)
  qed
qed

lemma scan_files_empty:
  assumes "\<forall>d\<in>set ds. data_rows (read_table E (path_join root_dir (d_path d))) = []"
  shows "fst (scan_files E root_dir ds) = Inr []"
proof -
  from assms have "\<forall>d\<in>set ds. clean_file E root_dir d"
    by (simp add: clean_file_def)
  from scan_files_ok [OF this] obtain rows where
    r: "scan_files E root_dir ds = (Inr rows, concat (map (whole_file E root_dir) ds))"
    and l: "length rows = (\<Sum>d\<leftarrow>ds. length (data_rows (read_table E (path_join root_dir (d_path d)))))"
    by blast
  from assms have "(\<Sum>d\<leftarrow>ds. length (data_rows (read_table E (path_join root_dir (d_path d))))) = 0"
    by (induction ds) simp_all
  with l have "rows = []" by simp
  with r show ?thesis by simp
qed

text \<open>
  C7. When every file the manifest refers to has no data row, \<open>load_edges\<close> returns
  the container with no nodes and no edges, and \<open>load_node_metadata\<close> and
  \<open>load_cluster_data\<close> the container with no nodes; none of them raises.
\<close>

theorem load_empty_files:
  assumes "\<forall>d\<in>set m. data_rows (read_table E (path_join root_dir (d_path d))) = []"
  shows "fst (load_edges E R root_dir m) = Inr \<lparr>r_nodes = [], r_edges = []\<rparr>
       \<and> fst (load_node_metadata E R root_dir m) = Inr \<lparr>r_nodes = []\<rparr>
       \<and> fst (load_cluster_data E R root_dir m) = Inr \<lparr>r_nodes = []\<rparr>"
proof -
  have e: "fst (scan_files E root_dir (of_role r m)) = Inr []" for r
    using assms by (intro scan_files_empty) (simp add: of_role_def)
  have "fst (load_edges E R root_dir m) = Inr \<lparr>r_nodes = [], r_edges = []\<rparr>"
    using e [of Edges]
    by (cases "scan_files E root_dir (of_role Edges m)") (simp add: load_edges_def)
  moreover have "fst (load_node_metadata E R root_dir m) = Inr \<lparr>r_nodes = []\<rparr>"
    using e [of NodeMetadata]
    by (cases "scan_files E root_dir (of_role NodeMetadata m)") (simp add: load_node_metadata_def)
  moreover have "fst (load_cluster_data E R root_dir m) = Inr \<lparr>r_nodes = []\<rparr>"
    using e [of Cluster]
    by (cases "scan_files E root_dir (of_role Cluster m)") (simp add: load_cluster_data_def)
  ultimately show ?thesis by simp
qed

lemma check_files_first:
  assumes "\<forall>d'\<in>set ds1. path_kind E (path_join root_dir (d_path d')) = Some IsFile"
      and "check_file E root_dir d = Some e"
  shows "check_files E root_dir (ds1 @ d # ds2) = Some e"
  using assms by (induction ds1) (simp_all add: check_file_def)

text \<open>
  C6. \<open>configure\<close> fails with \<open>ConfigurationError\<close>: \<open>No manifest file found at
  <path>\<close> when \<open>manifest.yaml\<close> is absent under the root; \<open>The manifest file failed
  validation\<close>, followed by the violations, when the manifest violates its schema;
  \<open><path>: not a file\<close> when the first referenced path that is not a regular file is a
  directory, \<open><path>: file does not exist\<close> when it is absent. Its outcome does not
  depend on the content of any data file: nothing is loaded before it returns.
\<close>

theorem configure_errors:
  assumes "mp = path_join root_dir (u ''manifest.yaml'')"
  shows "(path_kind E mp = None \<longrightarrow>
            configure E root_dir = Inl (ConfigurationError (u ''No manifest file found at '' @ mp)))
       \<and> (path_kind E mp = Some IsFile \<and> read_manifest E mp = Inl violations \<longrightarrow>
            configure E root_dir
              = Inl (ConfigurationError (u ''The manifest file failed validation'' @ violations)))
       \<and> (path_kind E mp = Some IsFile \<and> read_manifest E mp = Inr (ds1 @ d # ds2)
            \<and> (\<forall>d'\<in>set ds1. path_kind E (path_join root_dir (d_path d')) = Some IsFile) \<longrightarrow>
            (path_kind E (path_join root_dir (d_path d)) = Some IsDirectory \<longrightarrow>
               configure E root_dir
                 = Inl (ConfigurationError (path_join root_dir (d_path d) @ u '': not a file'')))
          \<and> (path_kind E (path_join root_dir (d_path d)) = None \<longrightarrow>
               configure E root_dir
                 = Inl (ConfigurationError
                          (path_join root_dir (d_path d) @ u '': file does not exist''))))
       \<and> configure (E\<lparr>read_table := t\<rparr>) root_dir = configure E root_dir"
proof (intro conjI impI)
  assume "path_kind E mp = None"
  then show "configure E root_dir = Inl (ConfigurationError (u ''No manifest file found at '' @ mp))"
    by (simp add: configure_def assms)
next
  assume "path_kind E mp = Some IsFile \<and> read_manifest E mp = Inl violations"
  then show "configure E root_dir
              = Inl (ConfigurationError (u ''The manifest file failed validation'' @ violations))"
    by (simp add: configure_def assms)
next
  assume a: "path_kind E mp = Some IsFile \<and> read_manifest E mp = Inr (ds1 @ d # ds2)
            \<and> (\<forall>d'\<in>set ds1. path_kind E (path_join root_dir (d_path d')) = Some IsFile)"
    and k: "path_kind E (path_join root_dir (d_path d)) = Some IsDirectory"
  from k have "check_file E root_dir d
      = Some (ConfigurationError (path_join root_dir (d_path d) @ u '': not a file''))"
    by (simp add: check_file_def)
  with a check_files_first [of ds1 E root_dir d _ ds2]
  show "configure E root_dir
          = Inl (ConfigurationError (path_join root_dir (d_path d) @ u '': not a file''))"
    by (simp add: configure_def assms)
next
  assume a: "path_kind E mp = Some IsFile \<and> read_manifest E mp = Inr (ds1 @ d # ds2)
            \<and> (\<forall>d'\<in>set ds1. path_kind E (path_join root_dir (d_path d')) = Some IsFile)"
    and k: "path_kind E (path_join root_dir (d_path d)) = None"
  from k have "check_file E root_dir d
      = Some (ConfigurationError (path_join root_dir (d_path d) @ u '': file does not exist''))"
    by (simp add: check_file_def)
  with a check_files_first [of ds1 E root_dir d _ ds2]
  show "configure E root_dir
          = Inl (ConfigurationError (path_join root_dir (d_path d) @ u '': file does not exist''))"
    by (simp add: configure_def assms)
next
  have cf: "check_file (E\<lparr>read_table := t\<rparr>) root_dir d' = check_file E root_dir d'" for d'
    by (simp add: check_file_def)
  have "check_files (E\<lparr>read_table := t\<rparr>) root_dir ds = check_files E root_dir ds" for ds
    by (induction ds) (simp_all add: cf split: option.splits)
  then show "configure (E\<lparr>read_table := t\<rparr>) root_dir = configure E root_dir"
    by (simp add: configure_def Let_def split: sum.splits)
qed

lemma sample_paths:
  "path_join (u ''data'') (u ''manifest.yaml'') = u ''data/manifest.yaml''"
  "path_join (u ''data'') (d_path sample_edges) = u ''data/edges.tsv''"
  "path_join (u ''data'') (d_path sample_nodes) = u ''data/nodes.csv''"
  "path_join (u ''data'') (d_path sample_clusters) = u ''data/clusters.tsv''"
  by (simp_all add: path_join_def u_def sample_edges_def sample_nodes_def sample_clusters_def)

lemma sample_path_neq:
  "u ''data/nodes.csv'' \<noteq> u ''data/edges.tsv''"
  "u ''data/clusters.tsv'' \<noteq> u ''data/edges.tsv''"
  "u ''data/clusters.tsv'' \<noteq> u ''data/nodes.csv''"
  "u ''data/manifest.yaml'' \<noteq> u ''data/edges.tsv''"
  "u ''data/edges.tsv'' \<noteq> u ''data/clusters.tsv''"
  "u ''data/nodes.csv'' \<noteq> u ''data/clusters.tsv''"
  by (simp_all add: u_def)

lemma sample_roles:
  "of_role Edges sample_manifest = [] @ sample_edges # []"
  "of_role NodeMetadata sample_manifest = [] @ sample_nodes # []"
  "of_role Cluster sample_manifest = [] @ sample_clusters # []"
  by (simp_all add: of_role_def sample_manifest_def sample_edges_def sample_nodes_def
        sample_clusters_def)

lemma str_nat_digit: "n < 10 \<Longrightarrow> str_nat n = [48 + n]"
  by (subst str_nat.simps) simp

lemma sample_lines:
  "lines_upto d 2 = [(d_path d, 1), (d_path d, 2)]"
  "lines_upto d 3 = [(d_path d, 1), (d_path d, 2), (d_path d, 3)]"
proof -
  have "[1..<Suc 2] = [1, 2::nat]" by code_simp
  then show "lines_upto d 2 = [(d_path d, 1), (d_path d, 2)]" by (simp add: lines_upto_def)
  have "[1..<Suc 3] = [1, 2, 3::nat]" by code_simp
  then show "lines_upto d 3 = [(d_path d, 1), (d_path d, 2), (d_path d, 3)]"
    by (simp add: lines_upto_def)
qed

theorem configure_errors_witness:
  "configure (sample_parser_env kinds_none manifest_valid tables_bad_type) (u ''data'')
     = Inl (ConfigurationError (u ''No manifest file found at data/manifest.yaml''))
   \<and> configure (sample_parser_env kinds_all manifest_invalid tables_bad_type) (u ''data'')
     = Inl (ConfigurationError (u ''The manifest file failed validation: file_list is required''))
   \<and> configure (sample_parser_env kinds_edges_directory manifest_valid tables_bad_type) (u ''data'')
     = Inl (ConfigurationError (u ''data/edges.tsv: not a file''))
   \<and> configure (sample_parser_env kinds_edges_missing manifest_valid tables_bad_type) (u ''data'')
     = Inl (ConfigurationError (u ''data/edges.tsv: file does not exist''))"
proof -
  note c = configure_errors [where root_dir = "u ''data''" and mp = "u ''data/manifest.yaml''"
      and ?ds1.0 = "[]" and d = sample_edges and ?ds2.0 = "[sample_nodes, sample_clusters]",
      OF sample_paths(1) [symmetric]]
  have m: "[] @ sample_edges # [sample_nodes, sample_clusters] = sample_manifest"
    by (simp add: sample_manifest_def)
  have 1: "configure (sample_parser_env kinds_none manifest_valid tables_bad_type) (u ''data'')
     = Inl (ConfigurationError (u ''No manifest file found at data/manifest.yaml''))"
    using c [of "sample_parser_env kinds_none manifest_valid tables_bad_type", THEN conjunct1]
    by (simp add: sample_parser_env_def kinds_none_def u_def)
  have 2: "configure (sample_parser_env kinds_all manifest_invalid tables_bad_type) (u ''data'')
     = Inl (ConfigurationError (u ''The manifest file failed validation: file_list is required''))"
    using c [of "sample_parser_env kinds_all manifest_invalid tables_bad_type"
                "u '': file_list is required''", THEN conjunct2, THEN conjunct1]
    by (simp add: sample_parser_env_def kinds_all_def manifest_invalid_def u_def)
  have 3: "configure (sample_parser_env kinds_edges_directory manifest_valid tables_bad_type) (u ''data'')
     = Inl (ConfigurationError (u ''data/edges.tsv: not a file''))"
    using c [of "sample_parser_env kinds_edges_directory manifest_valid tables_bad_type",
             THEN conjunct2, THEN conjunct2, THEN conjunct1]
    by (simp add: sample_parser_env_def kinds_edges_directory_def manifest_valid_def m
          sample_paths sample_path_neq) (simp add: u_def sample_manifest_def)
  have 4: "configure (sample_parser_env kinds_edges_missing manifest_valid tables_bad_type) (u ''data'')
     = Inl (ConfigurationError (u ''data/edges.tsv: file does not exist''))"
    using c [of "sample_parser_env kinds_edges_missing manifest_valid tables_bad_type",
             THEN conjunct2, THEN conjunct2, THEN conjunct1]
    by (simp add: sample_parser_env_def kinds_edges_missing_def manifest_valid_def m
          sample_paths sample_path_neq) (simp add: u_def sample_manifest_def)
  from 1 2 3 4 show ?thesis by simp
qed

theorem load_empty_files_witness:
  "fst (load_edges (sample_parser_env kinds_all manifest_valid tables_headers_only)
          sample_readers (u ''data'') sample_manifest) = Inr \<lparr>r_nodes = [], r_edges = []\<rparr>
   \<and> fst (load_node_metadata (sample_parser_env kinds_all manifest_valid tables_headers_only)
          sample_readers (u ''data'') sample_manifest) = Inr \<lparr>r_nodes = []\<rparr>
   \<and> fst (load_cluster_data (sample_parser_env kinds_all manifest_valid tables_headers_only)
          sample_readers (u ''data'') sample_manifest) = Inr \<lparr>r_nodes = []\<rparr>"
proof -
  have h: "\<forall>d\<in>set sample_manifest.
      data_rows (read_table (sample_parser_env kinds_all manifest_valid tables_headers_only)
                   (path_join (u ''data'') (d_path d))) = []"
    by (simp add: sample_manifest_def sample_parser_env_def tables_headers_only_def)
  from load_empty_files [OF h] show ?thesis .
qed

lemma sample_rows:
  "read_table (sample_parser_env k mf tables_short_row) (path_join (u ''data'') (d_path sample_edges))
     = \<lparr>header = Some [u ''from'', u ''to'', u ''type''],
        data_rows = [[u ''a'', u ''b'', u ''regulatory''], [u ''a'', u ''c'']]\<rparr>"
  "read_table (sample_parser_env k mf tables_short_row) (path_join (u ''data'') (d_path sample_nodes))
     = \<lparr>header = Some [u ''id'', u ''type''],
        data_rows = [[u ''a'', u ''gene''], [u ''b'', u ''Monkey'']]\<rparr>"
  "read_table (sample_parser_env k mf tables_short_row) (path_join (u ''data'') (d_path sample_clusters))
     = \<lparr>header = None, data_rows = [[u ''c1'', u ''a''], [u ''c2'']]\<rparr>"
  "read_table (sample_parser_env k mf tables_bad_type) (path_join (u ''data'') (d_path sample_edges))
     = \<lparr>header = Some [u ''from'', u ''to'', u ''type''],
        data_rows = [[u ''a'', u ''b'', u ''regulatory''], [u ''a'', u ''c'', u ''bogus-type'']]\<rparr>"
  "read_table (sample_parser_env k mf tables_bad_type) (path_join (u ''data'') (d_path sample_nodes))
     = \<lparr>header = Some [u ''id'', u ''type''], data_rows = [[u ''a'', u ''gene'', u ''extra'']]\<rparr>"
  by (simp_all add: sample_parser_env_def tables_short_row_def tables_bad_type_def
        sample_paths sample_path_neq)

lemma sample_messages:
  "u ''edges.tsv line 3: expected 3 cols, found 2''
     = d_path sample_edges @ u '' line '' @ str_nat 3 @ u '': expected ''
         @ str_nat (expected_columns sample_edges) @ u '' cols, found ''
         @ str_nat (length [u ''a'', u ''c''])"
  "u ''nodes.csv line 2: expected 2 cols, found 3''
     = d_path sample_nodes @ u '' line '' @ str_nat 2 @ u '': expected ''
         @ str_nat (expected_columns sample_nodes) @ u '' cols, found ''
         @ str_nat (length [u ''a'', u ''gene'', u ''extra''])"
  "u ''clusters.tsv line 2: expected 2 cols, found 1''
     = d_path sample_clusters @ u '' line '' @ str_nat 2 @ u '': expected ''
         @ str_nat (expected_columns sample_clusters) @ u '' cols, found ''
         @ str_nat (length [u ''c2''])"
  "d_path sample_edges @ u '' line '' @ str_nat 3 @ u '': invalid edge type: '' @ u ''bogus-type''
     = u ''edges.tsv line 3: invalid edge type: bogus-type''"
  "d_path sample_nodes @ u '' line '' @ str_nat 3 @ u '': invalid node type: '' @ u ''Monkey''
     = u ''nodes.csv line 3: invalid node type: Monkey''"
  by (simp_all add: sample_edges_def sample_nodes_def sample_clusters_def u_def str_nat_digit)

theorem column_count_is_fail_fast_witness:
  "load_edges (sample_parser_env kinds_all manifest_valid tables_short_row)
      sample_readers (u ''data'') sample_manifest
     = (Inl (FormatError (u ''edges.tsv line 3: expected 3 cols, found 2'')),
        [(u ''edges.tsv'', 1), (u ''edges.tsv'', 2), (u ''edges.tsv'', 3)])
   \<and> load_node_metadata (sample_parser_env kinds_all manifest_valid tables_bad_type)
      sample_readers (u ''data'') sample_manifest
     = (Inl (FormatError (u ''nodes.csv line 2: expected 2 cols, found 3'')),
        [(u ''nodes.csv'', 1), (u ''nodes.csv'', 2)])
   \<and> load_cluster_data (sample_parser_env kinds_all manifest_valid tables_short_row)
      sample_readers (u ''data'') sample_manifest
     = (Inl (FormatError (u ''clusters.tsv line 2: expected 2 cols, found 1'')),
        [(u ''clusters.tsv'', 1), (u ''clusters.tsv'', 2)])"
proof -
  let ?A = "sample_parser_env kinds_all manifest_valid tables_short_row"
  let ?B = "sample_parser_env kinds_all manifest_valid tables_bad_type"
  have e: "load_edges ?A sample_readers (u ''data'') sample_manifest
     = (Inl (FormatError (u ''edges.tsv line 3: expected 3 cols, found 2'')),
        [(u ''edges.tsv'', 1), (u ''edges.tsv'', 2), (u ''edges.tsv'', 3)])"
  proof -
    have 1: "\<forall>d'\<in>set []. clean_file ?A (u ''data'') d'" by simp
    have 2: "data_rows (read_table ?A (path_join (u ''data'') (d_path sample_edges)))
               = [[u ''a'', u ''b'', u ''regulatory'']] @ [u ''a'', u ''c''] # []"
      by (simp add: sample_rows)
    have 3: "\<forall>cols\<in>set [[u ''a'', u ''b'', u ''regulatory'']]. row_ok sample_edges cols"
      by (simp add: row_ok_def type_ok_def sample_edges_def)
    have 4: "length [u ''a'', u ''c''] \<noteq> expected_columns sample_edges"
      by (simp add: sample_edges_def)
    have 5: "3 = first_line (read_table ?A (path_join (u ''data'') (d_path sample_edges)))
                 + length [[u ''a'', u ''b'', u ''regulatory'']]"
      by (simp add: sample_rows first_line_def)
    have 6: "[(u ''edges.tsv'', 1), (u ''edges.tsv'', 2), (u ''edges.tsv'', 3)]
               = concat (map (whole_file ?A (u ''data'')) []) @ lines_upto sample_edges 3"
      by (simp add: sample_lines sample_edges_def)
    from column_count_is_fail_fast [OF sample_roles(1) 1 2 3 4 5 sample_messages(1) 6,
        of sample_readers]
    show ?thesis by simp
  qed
  have n: "load_node_metadata ?B sample_readers (u ''data'') sample_manifest
     = (Inl (FormatError (u ''nodes.csv line 2: expected 2 cols, found 3'')),
        [(u ''nodes.csv'', 1), (u ''nodes.csv'', 2)])"
  proof -
    have 1: "\<forall>d'\<in>set []. clean_file ?B (u ''data'') d'" by simp
    have 2: "data_rows (read_table ?B (path_join (u ''data'') (d_path sample_nodes)))
               = [] @ [u ''a'', u ''gene'', u ''extra''] # []"
      by (simp add: sample_rows)
    have 3: "\<forall>cols\<in>set []. row_ok sample_nodes cols" by simp
    have 4: "length [u ''a'', u ''gene'', u ''extra''] \<noteq> expected_columns sample_nodes"
      by (simp add: sample_nodes_def)
    have 5: "2 = first_line (read_table ?B (path_join (u ''data'') (d_path sample_nodes)))
                 + length ([] :: pystr list list)"
      by (simp add: sample_rows first_line_def)
    have 6: "[(u ''nodes.csv'', 1), (u ''nodes.csv'', 2)]
               = concat (map (whole_file ?B (u ''data'')) []) @ lines_upto sample_nodes 2"
      by (simp add: sample_lines sample_nodes_def)
    from column_count_is_fail_fast [OF sample_roles(2) 1 2 3 4 5 sample_messages(2) 6,
        of sample_readers]
    show ?thesis by simp
  qed
  have c: "load_cluster_data ?A sample_readers (u ''data'') sample_manifest
     = (Inl (FormatError (u ''clusters.tsv line 2: expected 2 cols, found 1'')),
        [(u ''clusters.tsv'', 1), (u ''clusters.tsv'', 2)])"
  proof -
    have 1: "\<forall>d'\<in>set []. clean_file ?A (u ''data'') d'" by simp
    have 2: "data_rows (read_table ?A (path_join (u ''data'') (d_path sample_clusters)))
               = [[u ''c1'', u ''a'']] @ [u ''c2''] # []"
      by (simp add: sample_rows)
    have 3: "\<forall>cols\<in>set [[u ''c1'', u ''a'']]. row_ok sample_clusters cols"
      by (simp add: row_ok_def type_ok_def sample_clusters_def)
    have 4: "length [u ''c2''] \<noteq> expected_columns sample_clusters"
      by (simp add: sample_clusters_def)
    have 5: "2 = first_line (read_table ?A (path_join (u ''data'') (d_path sample_clusters)))
                 + length [[u ''c1'', u ''a'']]"
      by (simp add: sample_rows first_line_def)
    have 6: "[(u ''clusters.tsv'', 1), (u ''clusters.tsv'', 2)]
               = concat (map (whole_file ?A (u ''data'')) []) @ lines_upto sample_clusters 2"
      by (simp add: sample_lines sample_clusters_def)
    from column_count_is_fail_fast [OF sample_roles(3) 1 2 3 4 5 sample_messages(3) 6,
        of sample_readers]
    show ?thesis by simp
  qed
  from e n c show ?thesis by simp
qed

theorem invalid_type_is_reported_witness:
  "load_edges (sample_parser_env kinds_all manifest_valid tables_bad_type)
      sample_readers (u ''data'') sample_manifest
     = (Inl (FormatError (u ''edges.tsv line 3: invalid edge type: bogus-type'')),
        [(u ''edges.tsv'', 1), (u ''edges.tsv'', 2), (u ''edges.tsv'', 3)])
   \<and> load_node_metadata (sample_parser_env kinds_all manifest_valid tables_short_row)
      sample_readers (u ''data'') sample_manifest
     = (Inl (FormatError (u ''nodes.csv line 3: invalid node type: Monkey'')),
        [(u ''nodes.csv'', 1), (u ''nodes.csv'', 2), (u ''nodes.csv'', 3)])"
proof -
  let ?A = "sample_parser_env kinds_all manifest_valid tables_short_row"
  let ?B = "sample_parser_env kinds_all manifest_valid tables_bad_type"
  have e: "load_edges ?B sample_readers (u ''data'') sample_manifest
     = (Inl (FormatError (u ''edges.tsv line 3: invalid edge type: bogus-type'')),
        [(u ''edges.tsv'', 1), (u ''edges.tsv'', 2), (u ''edges.tsv'', 3)])"
  proof -
    have 1: "\<forall>d'\<in>set []. clean_file ?B (u ''data'') d'" by simp
    have 2: "data_rows (read_table ?B (path_join (u ''data'') (d_path sample_edges)))
               = [[u ''a'', u ''b'', u ''regulatory'']] @ [u ''a'', u ''c'', u ''bogus-type''] # []"
      by (simp add: sample_rows)
    have 3: "\<forall>cols\<in>set [[u ''a'', u ''b'', u ''regulatory'']]. row_ok sample_edges cols"
      by (simp add: row_ok_def type_ok_def sample_edges_def)
    have 4: "length [u ''a'', u ''c'', u ''bogus-type''] = expected_columns sample_edges"
      by (simp add: sample_edges_def)
    have 5: "type_column_index sample_edges = Some 2" by (simp add: sample_edges_def)
    have 6: "2 < length [u ''a'', u ''c'', u ''bogus-type'']" by simp
    have 7: "[u ''a'', u ''c'', u ''bogus-type''] ! 2 \<notin> set (vocabulary sample_edges)"
      by (simp add: sample_edges_def u_def)
    have 8: "3 = first_line (read_table ?B (path_join (u ''data'') (d_path sample_edges)))
                 + length [[u ''a'', u ''b'', u ''regulatory'']]"
      by (simp add: sample_rows first_line_def)
    have 9: "[(u ''edges.tsv'', 1), (u ''edges.tsv'', 2), (u ''edges.tsv'', 3)]
               = concat (map (whole_file ?B (u ''data'')) []) @ lines_upto sample_edges 3"
      by (simp add: sample_lines sample_edges_def)
    from invalid_type_is_reported [OF sample_roles(1) 1 2 3 4 5 6 7 8 9, of sample_readers]
    show ?thesis by (simp add: sample_messages(4))
  qed
  have n: "load_node_metadata ?A sample_readers (u ''data'') sample_manifest
     = (Inl (FormatError (u ''nodes.csv line 3: invalid node type: Monkey'')),
        [(u ''nodes.csv'', 1), (u ''nodes.csv'', 2), (u ''nodes.csv'', 3)])"
  proof -
    have 1: "\<forall>d'\<in>set []. clean_file ?A (u ''data'') d'" by simp
    have 2: "data_rows (read_table ?A (path_join (u ''data'') (d_path sample_nodes)))
               = [[u ''a'', u ''gene'']] @ [u ''b'', u ''Monkey''] # []"
      by (simp add: sample_rows)
    have 3: "\<forall>cols\<in>set [[u ''a'', u ''gene'']]. row_ok sample_nodes cols"
      by (simp add: row_ok_def type_ok_def sample_nodes_def)
    have 4: "length [u ''b'', u ''Monkey''] = expected_columns sample_nodes"
      by (simp add: sample_nodes_def)
    have 5: "type_column_index sample_nodes = Some 1" by (simp add: sample_nodes_def)
    have 6: "1 < length [u ''b'', u ''Monkey'']" by simp
    have 7: "[u ''b'', u ''Monkey''] ! 1 \<notin> set (vocabulary sample_nodes)"
      by (simp add: sample_nodes_def u_def)
    have 8: "3 = first_line (read_table ?A (path_join (u ''data'') (d_path sample_nodes)))
                 + length [[u ''a'', u ''gene'']]"
      by (simp add: sample_rows first_line_def)
    have 9: "[(u ''nodes.csv'', 1), (u ''nodes.csv'', 2), (u ''nodes.csv'', 3)]
               = concat (map (whole_file ?A (u ''data'')) []) @ lines_upto sample_nodes 3"
      by (simp add: sample_lines sample_nodes_def)
    from invalid_type_is_reported [OF sample_roles(2) 1 2 3 4 5 6 7 8 9, of sample_readers]
    show ?thesis by (simp add: sample_messages(5))
  qed
  from e n show ?thesis by simp
qed

end
